theory Spec2Isabelle
  imports Main
begin

section \<open>Python strings\<close>

text \<open>
  A Python \<^verbatim>\<open>str\<close> (and a \<^verbatim>\<open>bytes\<close>) is a list of characters. The string methods the
  sources call are written out below with Python's behaviour at the edges.
\<close>

type_synonym bytes = string

definition startswith :: "string \<Rightarrow> string \<Rightarrow> bool" where
  "startswith s p = (take (length p) s = p)"

definition endswith :: "string \<Rightarrow> string \<Rightarrow> bool" where
  "endswith s p = (length p \<le> length s \<and> drop (length s - length p) s = p)"

text \<open>\<^verbatim>\<open>s.removeprefix(p)\<close>: \<^verbatim>\<open>s[len(p):]\<close> when \<^verbatim>\<open>s\<close> starts with \<^verbatim>\<open>p\<close>, else \<^verbatim>\<open>s\<close>.\<close>

definition removeprefix :: "string \<Rightarrow> string \<Rightarrow> string" where
  "removeprefix s p = (if startswith s p then drop (length p) s else s)"

text \<open>\<^verbatim>\<open>s.removesuffix(p)\<close>: \<^verbatim>\<open>s[:-len(p)]\<close> when \<^verbatim>\<open>p\<close> is not empty and \<^verbatim>\<open>s\<close> ends with it.\<close>

definition removesuffix :: "string \<Rightarrow> string \<Rightarrow> string" where
  "removesuffix s p =
     (if p \<noteq> [] \<and> endswith s p then take (length s - length p) s else s)"

text \<open>
  \<^verbatim>\<open>s.split(sep)\<close> for a non-empty separator: the pieces between the non-overlapping
  occurrences of \<^verbatim>\<open>sep\<close>, scanned from the left; \<^verbatim>\<open>''.split('/')\<close> is \<^verbatim>\<open>['']\<close>.
  \<open>cur\<close> is the piece being read.
\<close>

function split_from :: "string \<Rightarrow> string \<Rightarrow> string \<Rightarrow> string list" where
  "split_from sep cur [] = [cur]"
| "split_from sep cur (c # cs) =
     (if sep \<noteq> [] \<and> startswith (c # cs) sep
      then cur # split_from sep [] (drop (length sep) (c # cs))
      else split_from sep (cur @ [c]) cs)"
  by pat_completeness auto
termination
  by (relation "measure (\<lambda>(sep, cur, s). length s)") (auto simp: neq_Nil_conv)

definition split :: "string \<Rightarrow> string \<Rightarrow> string list" where
  "split s sep = split_from sep [] s"

section \<open>Path variables (\<^verbatim>\<open>_utils.collect_path_variables\<close>)\<close>

text \<open>
  The returned \<^verbatim>\<open>dict\<close> is a map; a later assignment to a key replaces the earlier one.
  \<^verbatim>\<open>f_path[1:-1]\<close> drops the first and the last character (and is empty for a string of
  fewer than two characters).
\<close>

definition slice_1_m1 :: "string \<Rightarrow> string" where
  "slice_1_m1 s = butlast (tl s)"

definition strip_separators :: "string \<Rightarrow> string" where
  "strip_separators p = removeprefix (removesuffix p ''/'') ''/''"

definition collect_path_variables :: "string \<Rightarrow> string \<Rightarrow> (string \<rightharpoonup> string)" where
  "collect_path_variables request_path found_path =
     (let found_path' = strip_separators found_path;
          request_path' = strip_separators request_path
      in fold (\<lambda>(f_path, r_path) path_variables.
                 if startswith f_path ''<''
                 then path_variables(slice_1_m1 f_path \<mapsto> r_path)
                 else path_variables)
              (zip (split found_path' ''/'') (split request_path' ''/''))
              Map.empty)"

section \<open>Values, exceptions and the host's frames\<close>

text \<open>
  JSON values are what \<^verbatim>\<open>orjson.dumps\<close> serialises and what an \<^verbatim>\<open>APIException\<close> carries as
  its \<^verbatim>\<open>detail\<close>.
\<close>

datatype json = JNull | JBool bool | JInt int | JStr string | JArr "json list"
  | JObj "(string \<times> json) list"

text \<open>
  Exceptions are values. \<open>APIException detail status_code\<close> is \<^verbatim>\<open>panther.exceptions.APIException\<close>
  (and its subclasses). \<open>TypeError\<close>, \<open>KeyError\<close>, \<open>ValueError\<close> and \<open>OtherException\<close> are the
  other subclasses of \<^verbatim>\<open>Exception\<close>: \<^verbatim>\<open>except APIException\<close> does not catch them and
  \<^verbatim>\<open>except Exception\<close> does. \<open>BaseException name\<close> is an exception that derives from
  \<^verbatim>\<open>BaseException\<close> and not from \<^verbatim>\<open>Exception\<close> (\<^verbatim>\<open>asyncio.CancelledError\<close>, \<^verbatim>\<open>SystemExit\<close>,
  \<^verbatim>\<open>KeyboardInterrupt\<close>, \<^verbatim>\<open>GeneratorExit\<close>): neither clause catches it.
\<close>

datatype pyexc =
    APIException json int
  | TypeError string
  | KeyError string
  | ValueError string
  | OtherException string
  | BaseException string

fun is_APIException :: "pyexc \<Rightarrow> bool" where
  "is_APIException (APIException detail code) = True"
| "is_APIException e = False"

text \<open>\<^verbatim>\<open>isinstance(e, Exception)\<close>: what \<^verbatim>\<open>except Exception\<close> catches.\<close>

fun is_Exception :: "pyexc \<Rightarrow> bool" where
  "is_Exception (BaseException name) = False"
| "is_Exception e = True"

record request =
  path :: string
  request_method :: string
  request_headers :: "(string \<times> string) list"
  request_body :: bytes

record response =
  status_code :: int
  headers :: "(string \<times> string) list"
  body :: bytes

text \<open>
  The two messages of the host's push interface: \<^verbatim>\<open>http.response.start\<close> with its status
  and header list, and \<^verbatim>\<open>http.response.body\<close>, whose \<^verbatim>\<open>body\<close> key may be absent.
\<close>

datatype frame =
    HttpResponseStart int "(bytes \<times> bytes) list"
  | HttpResponseBody "bytes option"

text \<open>A websocket connection object: its path, the class it was built from, its variables.\<close>

record websocket =
  ws_path :: string
  ws_class :: string
  ws_path_variables :: "string \<rightharpoonup> string"

text \<open>
  Everything a dispatch does to its collaborators is recorded, in order, as an event:
  the monitoring calls, reading the body, each middleware hook (by the middleware's class
  name, an after-hook with the response it is given), the endpoint call, each critical log
  line, each frame passed to \<^verbatim>\<open>send\<close>, and for websockets closing, registering and listening.
\<close>

datatype event =
    MonitoringBefore
  | MonitoringAfter int
  | MonitoringAfterWs string
  | ReadBody
  | Before string
  | After string response
  | WsBefore string
  | WsAfter string
  | EndpointCall string
  | LogCritical string
  | Send frame
  | WsClose "int option"
  | NewConnection websocket
  | Listen websocket

text \<open>
  The state a dispatch runs in: \<open>world\<close> is whatever the application's own code (middleware
  hooks, handlers) reads and writes, \<open>trace\<close> the events so far, \<open>connections\<close> the registry of
  admitted websocket connections.
\<close>

record 'w dstate =
  world :: 'w
  trace :: "event list"
  connections :: "websocket list"

definition emit :: "event \<Rightarrow> 'w dstate \<Rightarrow> 'w dstate" where
  "emit ev s = s\<lparr>trace := trace s @ [ev]\<rparr>"

section \<open>Middlewares, endpoints and the configuration\<close>

text \<open>
  A middleware is application code: each hook may change the world, and returns a value or
  raises any exception. \<open>mw_before\<close> and \<open>mw_after\<close> are the methods \<^verbatim>\<open>before\<close> and \<^verbatim>\<open>after\<close>
  on a request and a response; the same methods serve websocket connections, as the
  \<open>ws_\<close> fields.
\<close>

record 'w middleware =
  class_name :: string
  mw_before :: "'w \<Rightarrow> request \<Rightarrow> (pyexc + request) \<times> 'w"
  mw_after :: "'w \<Rightarrow> response \<Rightarrow> (pyexc + response) \<times> 'w"
  ws_before :: "'w \<Rightarrow> websocket \<Rightarrow> (pyexc + websocket) \<times> 'w"
  ws_after :: "'w \<Rightarrow> websocket \<Rightarrow> (pyexc + unit) \<times> 'w"

type_synonym 'w handler =
  "'w \<Rightarrow> request \<Rightarrow> (string \<rightharpoonup> string) \<Rightarrow> (pyexc + response) \<times> 'w"

text \<open>
  A registered endpoint is a function (\<^verbatim>\<open>types.FunctionType\<close>: its \<^verbatim>\<open>__name__\<close>, whether it has
  \<^verbatim>\<open>__wrapped__\<close>, and the function) or a class (its \<^verbatim>\<open>__name__\<close>, whether it is a subclass of
  \<^verbatim>\<open>GenericAPI\<close> and its \<^verbatim>\<open>call_method\<close>, whether it is a subclass of \<^verbatim>\<open>GenericWebsocket\<close> and
  what its \<^verbatim>\<open>listen\<close> does).
\<close>

record 'w klass =
  klass_name :: string
  is_GenericAPI :: bool
  call_method :: "'w handler"
  is_GenericWebsocket :: bool
  listen :: "'w \<Rightarrow> websocket \<Rightarrow> (pyexc + unit) \<times> 'w"

datatype 'w endpoint =
    FunctionEndpoint string bool "'w handler"
  | ClassEndpoint "'w klass"

text \<open>
  The \<^verbatim>\<open>config\<close> table, with the parts of the package the two source files import and do
  not define: \<^verbatim>\<open>find_endpoint\<close> (\<^verbatim>\<open>panther.routings\<close>), the \<^verbatim>\<open>status_text\<close> table
  (\<^verbatim>\<open>panther.status\<close>), \<^verbatim>\<open>orjson.dumps\<close>, the \<^verbatim>\<open>Response(data=, status_code=)\<close> constructor
  (\<^verbatim>\<open>panther.response\<close>) and \<^verbatim>\<open>clean_traceback_message\<close>. They are parameters.
\<close>

record 'w config =
  middlewares :: "'w middleware list"
  reversed_middlewares :: "'w middleware list"
  monitoring :: bool
  find_endpoint :: "string \<Rightarrow> 'w endpoint option \<times> string"
  status_text :: "int \<rightharpoonup> string"
  json_dumps :: "json \<Rightarrow> bytes"
  Response :: "json \<Rightarrow> int \<Rightarrow> response"
  clean_traceback_message :: "pyexc \<Rightarrow> string"

text \<open>
  \<^verbatim>\<open>Panther.load_configs\<close>, lines 69 and 70: \<open>ms\<close> is what \<^verbatim>\<open>load_middlewares\<close> returned, and
  \<^verbatim>\<open>[::-1]\<close> reverses it.
\<close>

definition load_configs :: "'w config \<Rightarrow> 'w middleware list \<Rightarrow> 'w config" where
  "load_configs cfg ms = cfg\<lparr>middlewares := ms, reversed_middlewares := rev ms\<rparr>"

section \<open>Framing a response (\<^verbatim>\<open>_utils.http_response\<close>)\<close>

datatype monitoring_object = Monitoring bool

definition http_response_start :: "int \<Rightarrow> 'w dstate \<Rightarrow> 'w dstate" where
  "http_response_start code s =
     emit (Send (HttpResponseStart code [(''content-type'', ''application/json'')])) s"

definition http_response_body :: "bytes option \<Rightarrow> 'w dstate \<Rightarrow> 'w dstate" where
  "http_response_body b s =
     (case b of
        None \<Rightarrow> emit (Send (HttpResponseBody None)) s
      | Some payload \<Rightarrow> emit (Send (HttpResponseBody (Some payload))) s)"

text \<open>
  \<^verbatim>\<open>status_text[status_code]\<close> raises \<^verbatim>\<open>KeyError\<close> for a code the table lacks. The arguments
  are the keyword parameters of the source, in its order.
\<close>

definition http_response ::
  "'w config \<Rightarrow> int \<Rightarrow> monitoring_object option \<Rightarrow> bytes option \<Rightarrow> bool \<Rightarrow> 'w dstate
     \<Rightarrow> (pyexc + unit) \<times> 'w dstate" where
  "http_response cfg code mon b exception s =
     (case (if exception
            then (case status_text cfg code of
                    None \<Rightarrow> Inl (KeyError ''status_text'')
                  | Some text \<Rightarrow> Inr (Some (json_dumps cfg (JObj [(''detail'', JStr text)]))))
            else if code = 204 \<or> b = Some ''null'' then Inr None
            else Inr b) of
        Inl e \<Rightarrow> (Inl e, s)
      | Inr b' \<Rightarrow>
          (Inr (),
           http_response_body b'
             (http_response_start code
               (case mon of None \<Rightarrow> s | Some m \<Rightarrow> emit (MonitoringAfter code) s))))"

text \<open>
  A call binds its keyword arguments to the parameters first: \<^verbatim>\<open>http_response\<close> declares
  the keyword-only parameters below and no \<^verbatim>\<open>**kwargs\<close>, so a call that passes any other
  keyword raises \<^verbatim>\<open>TypeError\<close> before the body runs. \<open>keywords\<close> are the names a call site
  writes.
\<close>

definition http_response_parameters :: "string list" where
  "http_response_parameters = [''status_code'', ''monitoring'', ''body'', ''exception'']"

definition call_http_response ::
  "'w config \<Rightarrow> string list \<Rightarrow> int \<Rightarrow> monitoring_object option \<Rightarrow> bytes option \<Rightarrow> bool
     \<Rightarrow> 'w dstate \<Rightarrow> (pyexc + unit) \<times> 'w dstate" where
  "call_http_response cfg keywords code mon b exception s =
     (case filter (\<lambda>k. k \<notin> set http_response_parameters) keywords of
        k # ks \<Rightarrow>
          (Inl (TypeError (''http_response() got an unexpected keyword argument '' @ k)), s)
      | [] \<Rightarrow> http_response cfg code mon b exception s)"

section \<open>The HTTP dispatch (\<^verbatim>\<open>Panther.handle_http\<close>)\<close>

text \<open>\<^verbatim>\<open>handle_exceptions\<close>: the response an \<^verbatim>\<open>APIException\<close> is mapped to.\<close>

fun is_dict :: "json \<Rightarrow> bool" where
  "is_dict (JObj kvs) = True"
| "is_dict j = False"

definition handle_exceptions :: "'w config \<Rightarrow> json \<Rightarrow> int \<Rightarrow> response" where
  "handle_exceptions cfg detail code =
     Response cfg (if is_dict detail then detail else JObj [(''detail'', detail)]) code"

text \<open>
  The loop over \<^verbatim>\<open>config['middlewares']\<close> inside the \<^verbatim>\<open>try\<close>: the first hook that raises
  ends it, with the exception.
\<close>

fun run_before ::
  "'w middleware list \<Rightarrow> request \<Rightarrow> 'w dstate \<Rightarrow> (pyexc + request) \<times> 'w dstate" where
  "run_before [] req s = (Inr req, s)"
| "run_before (m # ms) req s =
     (case mw_before m (world s) req of
        (Inl e, w) \<Rightarrow> (Inl e, (emit (Before (class_name m)) s)\<lparr>world := w\<rparr>)
      | (Inr req', w) \<Rightarrow> run_before ms req' ((emit (Before (class_name m)) s)\<lparr>world := w\<rparr>))"

text \<open>
  The loop over \<^verbatim>\<open>config['reversed_middlewares']\<close>: an \<^verbatim>\<open>APIException\<close> of a hook is mapped to
  a response and the loop goes on; any other exception leaves the loop and the function.
\<close>

fun run_after ::
  "'w config \<Rightarrow> 'w middleware list \<Rightarrow> response \<Rightarrow> 'w dstate
     \<Rightarrow> (pyexc + response) \<times> 'w dstate" where
  "run_after cfg [] resp s = (Inr resp, s)"
| "run_after cfg (m # ms) resp s =
     (case mw_after m (world s) resp of
        (Inr resp', w) \<Rightarrow>
          run_after cfg ms resp' ((emit (After (class_name m) resp) s)\<lparr>world := w\<rparr>)
      | (Inl e, w) \<Rightarrow>
          (case e of
             APIException detail code \<Rightarrow>
               run_after cfg ms (handle_exceptions cfg detail code)
                 ((emit (After (class_name m) resp) s)\<lparr>world := w\<rparr>)
           | _ \<Rightarrow> (Inl e, (emit (After (class_name m) resp) s)\<lparr>world := w\<rparr>)))"

definition call_endpoint ::
  "string \<Rightarrow> 'w handler \<Rightarrow> request \<Rightarrow> (string \<rightharpoonup> string) \<Rightarrow> 'w dstate
     \<Rightarrow> (pyexc + response) \<times> 'w dstate" where
  "call_endpoint name f req path_variables s =
     (case f (world s) req path_variables of
        (r, w) \<Rightarrow> (r, (emit (EndpointCall name) s)\<lparr>world := w\<rparr>))"

definition not_implemented ::
  "'w config \<Rightarrow> string \<Rightarrow> 'w dstate \<Rightarrow> (pyexc + unit) \<times> 'w dstate" where
  "not_implemented cfg message s =
     call_http_response cfg [''status_code'', ''monitoring'', ''exception'']
       501 (Some (Monitoring (monitoring cfg))) None True (emit (LogCritical message) s)"

text \<open>
  The body of the \<^verbatim>\<open>try\<close> (lines 192 to 227). It raises (\<open>Inl\<close>), returns from
  \<^verbatim>\<open>handle_http\<close> after framing a 501 (\<open>Inr None\<close>), or ends with the endpoint's response
  (\<open>Inr (Some response)\<close>).
\<close>

definition try_body ::
  "'w config \<Rightarrow> 'w endpoint \<Rightarrow> (string \<rightharpoonup> string) \<Rightarrow> request \<Rightarrow> 'w dstate
     \<Rightarrow> (pyexc + response option) \<times> 'w dstate" where
  "try_body cfg endpoint path_variables req s =
     (case run_before (middlewares cfg) req s of
        (Inl e, s1) \<Rightarrow> (Inl e, s1)
      | (Inr req', s1) \<Rightarrow>
          (case endpoint of
             FunctionEndpoint name wrapped f \<Rightarrow>
               if \<not> wrapped
               then (case not_implemented cfg
                            (''You may have forgotten to use @API on the '' @ name @ ''()'') s1 of
                       (Inl e, s2) \<Rightarrow> (Inl e, s2)
                     | (Inr u, s2) \<Rightarrow> (Inr None, s2))
               else (case call_endpoint name f req' path_variables s1 of
                       (Inl e, s2) \<Rightarrow> (Inl e, s2)
                     | (Inr resp, s2) \<Rightarrow> (Inr (Some resp), s2))
           | ClassEndpoint k \<Rightarrow>
               if \<not> is_GenericAPI k
               then (case not_implemented cfg
                            (''You may have forgotten to inherit from GenericAPI on the ''
                               @ klass_name k @ ''()'') s1 of
                       (Inl e, s2) \<Rightarrow> (Inl e, s2)
                     | (Inr u, s2) \<Rightarrow> (Inr None, s2))
               else (case call_endpoint (klass_name k) (call_method k) req' path_variables s1 of
                       (Inl e, s2) \<Rightarrow> (Inl e, s2)
                     | (Inr resp, s2) \<Rightarrow> (Inr (Some resp), s2))))"

text \<open>
  Lines 243 to 256: the after-hooks, then the call that frames the final response. That
  call passes the keywords \<^verbatim>\<open>status_code\<close>, \<^verbatim>\<open>monitoring\<close>, \<^verbatim>\<open>headers\<close> and \<^verbatim>\<open>body\<close>.
\<close>

definition after_and_respond ::
  "'w config \<Rightarrow> response \<Rightarrow> 'w dstate \<Rightarrow> (pyexc + unit) \<times> 'w dstate" where
  "after_and_respond cfg resp s =
     (case run_after cfg (reversed_middlewares cfg) resp s of
        (Inl e, s1) \<Rightarrow> (Inl e, s1)
      | (Inr resp', s1) \<Rightarrow>
          call_http_response cfg [''status_code'', ''monitoring'', ''headers'', ''body'']
            (status_code resp') (Some (Monitoring (monitoring cfg))) (Some (body resp')) False s1)"

text \<open>
  \<^verbatim>\<open>handle_http\<close>. \<^verbatim>\<open>self.monitoring.before\<close> and \<^verbatim>\<open>request.read_body\<close> belong to classes outside
  the two source files; they are recorded as events. The result is \<open>Inr ()\<close> when the
  coroutine returns and \<open>Inl e\<close> when the exception \<open>e\<close> leaves it. The \<^verbatim>\<open>try\<close> has the two
  clauses \<^verbatim>\<open>except APIException\<close> and \<^verbatim>\<open>except Exception\<close>; an exception that is not an
  instance of \<^verbatim>\<open>Exception\<close> passes both and leaves \<^verbatim>\<open>handle_http\<close>.
\<close>

definition handle_http ::
  "'w config \<Rightarrow> request \<Rightarrow> 'w dstate \<Rightarrow> (pyexc + unit) \<times> 'w dstate" where
  "handle_http cfg req s =
     (case find_endpoint cfg (path req) of
        (endpoint, found_path) \<Rightarrow>
          (case endpoint of
             None \<Rightarrow>
               call_http_response cfg [''status_code'', ''monitoring'', ''exception'']
                 404 (Some (Monitoring (monitoring cfg))) None True
                 (emit ReadBody (emit MonitoringBefore s))
           | Some ep \<Rightarrow>
               (case try_body cfg ep (collect_path_variables (path req) found_path) req
                       (emit ReadBody (emit MonitoringBefore s)) of
                  (Inr None, s1) \<Rightarrow> (Inr (), s1)
                | (Inr (Some resp), s1) \<Rightarrow> after_and_respond cfg resp s1
                | (Inl e, s1) \<Rightarrow>
                    (case e of
                       APIException detail code \<Rightarrow>
                         after_and_respond cfg (handle_exceptions cfg detail code) s1
                     | BaseException name \<Rightarrow> (Inl e, s1)
                     | _ \<Rightarrow>
                         call_http_response cfg [''status_code'', ''monitoring'', ''exception'']
                           500 (Some (Monitoring (monitoring cfg))) None True
                           (emit (LogCritical (clean_traceback_message cfg e)) s1)))))"

text \<open>What a trace says about the hooks and the endpoint.\<close>

fun before_calls :: "event list \<Rightarrow> string list" where
  "before_calls [] = []"
| "before_calls (Before n # evs) = n # before_calls evs"
| "before_calls (ev # evs) = before_calls evs"

fun after_calls :: "event list \<Rightarrow> (string \<times> response) list" where
  "after_calls [] = []"
| "after_calls (After n r # evs) = (n, r) # after_calls evs"
| "after_calls (ev # evs) = after_calls evs"

fun endpoint_calls :: "event list \<Rightarrow> string list" where
  "endpoint_calls [] = []"
| "endpoint_calls (EndpointCall n # evs) = n # endpoint_calls evs"
| "endpoint_calls (ev # evs) = endpoint_calls evs"

fun sent :: "event list \<Rightarrow> frame list" where
  "sent [] = []"
| "sent (Send f # evs) = f # sent evs"
| "sent (ev # evs) = sent evs"

fun critical_logs :: "event list \<Rightarrow> string list" where
  "critical_logs [] = []"
| "critical_logs (LogCritical m # evs) = m # critical_logs evs"
| "critical_logs (ev # evs) = critical_logs evs"

text \<open>
  The capability check of lines 196 to 224, read off an endpoint: whether it passes, the
  \<^verbatim>\<open>__name__\<close> the log line prints, and the callable \<^verbatim>\<open>_endpoint\<close> that is declared when it
  passes.
\<close>

fun capable :: "'w endpoint \<Rightarrow> bool" where
  "capable (FunctionEndpoint name wrapped f) = wrapped"
| "capable (ClassEndpoint k) = is_GenericAPI k"

fun endpoint_name :: "'w endpoint \<Rightarrow> string" where
  "endpoint_name (FunctionEndpoint name wrapped f) = name"
| "endpoint_name (ClassEndpoint k) = klass_name k"

fun endpoint_callable :: "'w endpoint \<Rightarrow> 'w handler" where
  "endpoint_callable (FunctionEndpoint name wrapped f) = f"
| "endpoint_callable (ClassEndpoint k) = call_method k"

fun forgotten_message :: "'w endpoint \<Rightarrow> string" where
  "forgotten_message (FunctionEndpoint name wrapped f) =
     ''You may have forgotten to use @API on the '' @ name @ ''()''"
| "forgotten_message (ClassEndpoint k) =
     ''You may have forgotten to inherit from GenericAPI on the '' @ klass_name k @ ''()''"

text \<open>
  What the middleware contract allows an after-hook to do: return a response or raise an
  \<^verbatim>\<open>APIException\<close>, whatever the world and the response it is given.
\<close>

definition after_raises_only_APIException :: "'w middleware \<Rightarrow> bool" where
  "after_raises_only_APIException m =
     (\<forall>w r. case fst (mw_after m w r) of Inl e \<Rightarrow> is_APIException e | Inr r' \<Rightarrow> True)"

text \<open>
  The bytes a body frame carries: the host reads an absent \<^verbatim>\<open>body\<close> key as no bytes.
\<close>

fun frame_payload :: "frame \<Rightarrow> bytes" where
  "frame_payload (HttpResponseBody None) = []"
| "frame_payload (HttpResponseBody (Some payload)) = payload"
| "frame_payload (HttpResponseStart code hs) = []"

section \<open>The websocket dispatch (\<^verbatim>\<open>Panther.handle_ws\<close>)\<close>

text \<open>The closure codes of \<^verbatim>\<open>panther.status\<close>, which carry their value in their name.\<close>

definition WS_1000_NORMAL_CLOSURE :: int where
  "WS_1000_NORMAL_CLOSURE = 1000"

definition WS_1014_BAD_GATEWAY :: int where
  "WS_1014_BAD_GATEWAY = 1014"

text \<open>
  Modelled from the spec: \<^verbatim>\<open>WebsocketConnections.new_connection\<close> is not in the source files;
  the spec says that the connection is inserted into the registry.
\<close>

definition new_connection :: "websocket \<Rightarrow> 'w dstate \<Rightarrow> 'w dstate" where
  "new_connection conn s = emit (NewConnection conn) (s\<lparr>connections := connections s @ [conn]\<rparr>)"

text \<open>
  The \<^verbatim>\<open>for\<close> loop of lines 151 to 156. An \<^verbatim>\<open>APIException\<close> closes the connection and breaks
  out of the loop (\<open>True\<close>); the \<^verbatim>\<open>else\<close> branch runs when the loop was not broken (\<open>False\<close>).
\<close>

fun ws_before_loop ::
  "'w middleware list \<Rightarrow> websocket \<Rightarrow> 'w dstate
     \<Rightarrow> (pyexc + websocket \<times> bool) \<times> 'w dstate" where
  "ws_before_loop [] conn s = (Inr (conn, False), s)"
| "ws_before_loop (m # ms) conn s =
     (case ws_before m (world s) conn of
        (Inr conn', w) \<Rightarrow>
          ws_before_loop ms conn' ((emit (WsBefore (class_name m)) s)\<lparr>world := w\<rparr>)
      | (Inl e, w) \<Rightarrow>
          (case e of
             APIException detail code \<Rightarrow>
               (Inr (conn, True),
                emit (WsClose None) ((emit (WsBefore (class_name m)) s)\<lparr>world := w\<rparr>))
           | _ \<Rightarrow> (Inl e, (emit (WsBefore (class_name m)) s)\<lparr>world := w\<rparr>)))"

text \<open>Lines 163 to 165: \<^verbatim>\<open>contextlib.suppress(APIException)\<close> around each after-hook.\<close>

fun ws_after_loop ::
  "'w middleware list \<Rightarrow> websocket \<Rightarrow> 'w dstate \<Rightarrow> (pyexc + unit) \<times> 'w dstate" where
  "ws_after_loop [] conn s = (Inr (), s)"
| "ws_after_loop (m # ms) conn s =
     (case ws_after m (world s) conn of
        (Inr u, w) \<Rightarrow> ws_after_loop ms conn ((emit (WsAfter (class_name m)) s)\<lparr>world := w\<rparr>)
      | (Inl e, w) \<Rightarrow>
          (case e of
             APIException detail code \<Rightarrow>
               ws_after_loop ms conn ((emit (WsAfter (class_name m)) s)\<lparr>world := w\<rparr>)
           | _ \<Rightarrow> (Inl e, (emit (WsAfter (class_name m)) s)\<lparr>world := w\<rparr>)))"

definition ws_listen ::
  "'w klass \<Rightarrow> websocket \<Rightarrow> 'w dstate \<Rightarrow> (pyexc + unit) \<times> 'w dstate" where
  "ws_listen k conn s =
     (case listen k (world s) conn of
        (r, w) \<Rightarrow> (r, (emit (Listen conn) s)\<lparr>world := w\<rparr>))"

text \<open>
  \<^verbatim>\<open>handle_ws\<close> for a connection on path \<open>p\<close>. \<^verbatim>\<open>issubclass(endpoint, GenericWebsocket)\<close> raises
  \<^verbatim>\<open>TypeError\<close> when its first argument is not a class, so for a function endpoint.
\<close>

definition handle_ws :: "'w config \<Rightarrow> string \<Rightarrow> 'w dstate \<Rightarrow> (pyexc + unit) \<times> 'w dstate" where
  "handle_ws cfg p s =
     (case find_endpoint cfg p of
        (endpoint, found_path) \<Rightarrow>
          (case endpoint of
             None \<Rightarrow>
               (Inr (),
                emit (WsClose (Some WS_1000_NORMAL_CLOSURE))
                  (emit (MonitoringAfterWs ''Rejected'') (emit MonitoringBefore s)))
           | Some ep \<Rightarrow>
               (case ep of
                  FunctionEndpoint name wrapped f \<Rightarrow>
                    (Inl (TypeError ''issubclass() arg 1 must be a class''),
                     emit MonitoringBefore s)
                | ClassEndpoint k \<Rightarrow>
                    if \<not> is_GenericWebsocket k
                    then (Inr (),
                          emit (WsClose (Some WS_1014_BAD_GATEWAY))
                            (emit (MonitoringAfterWs ''Rejected'')
                              (emit (LogCritical
                                 (''You may have forgotten to inherit from GenericWebsocket on the ''
                                    @ klass_name k @ ''()''))
                                (emit MonitoringBefore s))))
                    else
                      (case ws_before_loop (middlewares cfg)
                              \<lparr>ws_path = p, ws_class = klass_name k,
                               ws_path_variables = collect_path_variables p found_path\<rparr>
                              (emit MonitoringBefore s) of
                         (Inl e, s1) \<Rightarrow> (Inl e, s1)
                       | (Inr (conn, broken), s1) \<Rightarrow>
                           (case (if broken then (Inr (), s1)
                                  else ws_listen k conn
                                         (emit (MonitoringAfterWs ''Accepted'')
                                           (new_connection conn s1))) of
                              (Inl e, s2) \<Rightarrow> (Inl e, s2)
                            | (Inr u, s2) \<Rightarrow>
                                (case ws_after_loop (reversed_middlewares cfg) conn s2 of
                                   (Inl e, s3) \<Rightarrow> (Inl e, s3)
                                 | (Inr u', s3) \<Rightarrow>
                                     (Inr (), emit (MonitoringAfterWs ''Closed'') s3)))))))"

fun closes :: "event list \<Rightarrow> int option list" where
  "closes [] = []"
| "closes (WsClose c # evs) = c # closes evs"
| "closes (ev # evs) = closes evs"

section \<open>The form-data decoder (\<^verbatim>\<open>_utils.read_multipart_form_data\<close>)\<close>

text \<open>
  The characters the patterns name by escapes: \<^verbatim>\<open>\r\n\<close> and the double quote.
\<close>

definition crlf :: string where
  "crlf = [CHR 0x0D, CHR 0x0A]"

definition quote :: string where
  "quote = [CHR 0x22]"

text \<open>
  The regular expressions of the decoder are built from two things only: literal text and
  \<^verbatim>\<open>.*\<close>, where \<^verbatim>\<open>.\<close> matches every character but the newline (no \<^verbatim>\<open>DOTALL\<close> flag), inside
  capture groups that are not nested. A pattern is the list of its groups, a group the list
  of its atoms.

  \<open>match_seq\<close> is \<^verbatim>\<open>re.match\<close> on the atoms: anchored at the start of the string, not at its
  end. \<^verbatim>\<open>.*\<close> is greedy: it first takes the longest run of characters without a newline and
  gives characters back one at a time (\<open>shorter\<close>) until the rest of the pattern matches.
  The result is the text each atom matched; \<open>re_match\<close> joins them into \<^verbatim>\<open>match.groups()\<close>.
\<close>

datatype atom = Lit string | DotStar

fun match_seq :: "atom list \<Rightarrow> string \<Rightarrow> string list option"
  and shorter :: "atom list \<Rightarrow> string \<Rightarrow> nat \<Rightarrow> string list option" where
  "match_seq [] s = Some []"
| "match_seq (Lit l # atoms) s =
     (if startswith s l then map_option (Cons l) (match_seq atoms (drop (length l) s))
      else None)"
| "match_seq (DotStar # atoms) s =
     shorter atoms s (length (takeWhile (\<lambda>c. c \<noteq> CHR 0x0A) s))"
| "shorter atoms s 0 = map_option (Cons []) (match_seq atoms s)"
| "shorter atoms s (Suc n) =
     (case match_seq atoms (drop (Suc n) s) of
        Some texts \<Rightarrow> Some (take (Suc n) s # texts)
      | None \<Rightarrow> shorter atoms s n)"

fun regroup :: "nat list \<Rightarrow> string list \<Rightarrow> string list" where
  "regroup [] texts = []"
| "regroup (n # ns) texts = concat (take n texts) # regroup ns (drop n texts)"

definition re_match :: "atom list list \<Rightarrow> string \<Rightarrow> string list option" where
  "re_match pattern s =
     map_option (regroup (map length pattern)) (match_seq (concat pattern) s)"

text \<open>
  The patterns, with the source's names. Python joins them with \<^verbatim>\<open>+\<close> as strings; here the
  lists of groups are appended.
\<close>

definition per_pattern :: "atom list list" where
  "per_pattern =
     [[DotStar, Lit (crlf @ ''Content-Disposition: form-data; name='' @ quote)], [DotStar]]"

definition value_pattern :: "atom list list" where
  "value_pattern = [[Lit (crlf @ crlf)], [DotStar]]"

definition field_pattern :: "atom list list" where
  "field_pattern = per_pattern @ value_pattern @ [[Lit crlf, DotStar]]"

definition file_pattern :: "atom list list" where
  "file_pattern =
     per_pattern
     @ [[Lit (quote @ ''; filename='' @ quote)], [DotStar],
        [Lit (quote @ crlf @ ''Content-Type: '')], [DotStar]]
     @ value_pattern"

text \<open>
  One pass of the loop over \<^verbatim>\<open>body.split(boundary)\<close>: the field pattern has five groups,
  of which the second is stored as the key and the fourth as the value; a part that matches
  the file pattern is logged with \<^verbatim>\<open>logger.error\<close>. The result pairs the \<^verbatim>\<open>fields\<close> dictionary
  with the lines logged.
\<close>

definition file_message :: string where
  "file_message = ''We Don't Handle Files In Multipart Request Yet.''"

definition decode_part ::
  "string \<Rightarrow> (string \<rightharpoonup> string) \<times> string list \<Rightarrow> (string \<rightharpoonup> string) \<times> string list" where
  "decode_part field acc =
     (case acc of
        (form_fields, errors) \<Rightarrow>
          ((case re_match field_pattern field of
              Some groups \<Rightarrow> form_fields(groups ! 1 \<mapsto> groups ! 3)
            | None \<Rightarrow> form_fields),
           (case re_match file_pattern field of
              Some groups \<Rightarrow> errors @ [file_message]
            | None \<Rightarrow> errors)))"

text \<open>
  \<^verbatim>\<open>content_type[30:]\<close> is the boundary; \<^verbatim>\<open>str.split\<close> raises \<^verbatim>\<open>ValueError\<close> for an empty
  separator.
\<close>

definition read_multipart_form_data ::
  "string \<Rightarrow> string \<Rightarrow> pyexc + (string \<rightharpoonup> string) \<times> string list" where
  "read_multipart_form_data content_type body_text =
     (if drop 30 content_type = [] then Inl (ValueError ''empty separator'')
      else Inr (fold decode_part (split body_text (drop 30 content_type)) (Map.empty, [])))"

text \<open>
  Example parts: a simple field \<^verbatim>\<open>title\<close> with the value \<^verbatim>\<open>hello\<close>, a file field, and a body
  with the boundary \<^verbatim>\<open>XYZ\<close> that holds the simple field.
\<close>

definition title_part :: string where
  "title_part = crlf @ ''Content-Disposition: form-data; name='' @ quote @ ''title'' @ quote
     @ crlf @ crlf @ ''hello'' @ crlf @ ''--''"

definition file_part :: string where
  "file_part = crlf @ ''Content-Disposition: form-data; name='' @ quote @ ''doc'' @ quote
     @ ''; filename='' @ quote @ ''a.txt'' @ quote @ crlf @ ''Content-Type: text/plain''
     @ crlf @ crlf @ ''data'' @ crlf @ ''--''"

definition form_body :: string where
  "form_body = ''--XYZ'' @ title_part @ ''XYZ--'' @ crlf"

text \<open>
  What a matched text has to be for its atom, and the header text up to the field name.
\<close>

fun fits :: "atom \<Rightarrow> string \<Rightarrow> bool" where
  "fits (Lit l) t = (t = l)"
| "fits DotStar t = (CHR 0x0A \<notin> set t)"

definition disposition :: string where
  "disposition = ''Content-Disposition: form-data; name='' @ quote"

section \<open>Example applications\<close>

text \<open>
  Small applications on which the theorems below are run. Their world is \<open>unit\<close>: the
  hooks and handlers keep no state.
\<close>

definition passing :: "string \<Rightarrow> unit middleware" where
  "passing n =
     \<lparr>class_name = n,
      mw_before = (\<lambda>w req. (Inr req, w)),
      mw_after = (\<lambda>w resp. (Inr resp, w)),
      ws_before = (\<lambda>w conn. (Inr conn, w)),
      ws_after = (\<lambda>w conn. (Inr (), w))\<rparr>"

text \<open>A middleware whose before-hook raises \<^verbatim>\<open>APIException('denied', 403)\<close>.\<close>

definition rejecting :: "string \<Rightarrow> unit middleware" where
  "rejecting n = (passing n)\<lparr>mw_before := (\<lambda>w req. (Inl (APIException (JStr ''denied'') 403), w))\<rparr>"

text \<open>A middleware whose after-hook raises an exception that is not an \<^verbatim>\<open>APIException\<close>.\<close>

definition broken_after :: "string \<Rightarrow> unit middleware" where
  "broken_after n = (passing n)\<lparr>mw_after := (\<lambda>w resp. (Inl (OtherException ''boom''), w))\<rparr>"

text \<open>A middleware whose before-hook raises an exception that is not an \<^verbatim>\<open>APIException\<close>.\<close>

definition broken_before :: "string \<Rightarrow> unit middleware" where
  "broken_before n = (passing n)\<lparr>mw_before := (\<lambda>w req. (Inl (OtherException ''boom''), w))\<rparr>"

definition ok_response :: response where
  "ok_response = \<lparr>status_code = 200, headers = [], body = ''{}''\<rparr>"

definition hello :: "unit handler" where
  "hello w req path_variables = (Inr ok_response, w)"

definition failing :: "unit handler" where
  "failing w req path_variables = (Inl (OtherException ''secret''), w)"

text \<open>A handler whose call is cancelled: it raises \<^verbatim>\<open>asyncio.CancelledError\<close>.\<close>

definition cancelled :: "unit handler" where
  "cancelled w req path_variables = (Inl (BaseException ''CancelledError''), w)"

definition example_status_text :: "int \<rightharpoonup> string" where
  "example_status_text =
     [404 \<mapsto> ''Not Found'', 500 \<mapsto> ''Internal Server Error'', 501 \<mapsto> ''Not Implemented'']"

fun example_dumps :: "json \<Rightarrow> bytes" where
  "example_dumps (JObj [(k, JStr v)]) = ''{'' @ k @ '': '' @ v @ ''}''"
| "example_dumps j = ''null''"

definition example_Response :: "json \<Rightarrow> int \<Rightarrow> response" where
  "example_Response data code = \<lparr>status_code = code, headers = [], body = example_dumps data\<rparr>"

text \<open>An application that serves the endpoint \<open>ep\<close> on \<^verbatim>\<open>/hello/\<close> and nothing else.\<close>

definition example_app :: "unit endpoint \<Rightarrow> unit middleware list \<Rightarrow> unit config" where
  "example_app ep ms =
     load_configs
       \<lparr>middlewares = [], reversed_middlewares = [], monitoring = False,
        find_endpoint = (\<lambda>p. if p = ''/hello/'' then (Some ep, ''hello/'') else (None, [])),
        status_text = example_status_text,
        json_dumps = example_dumps,
        Response = example_Response,
        clean_traceback_message = (\<lambda>e. ''Traceback'')\<rparr>
       ms"

definition get_hello :: request where
  "get_hello = \<lparr>path = ''/hello/'', request_method = ''GET'', request_headers = [], request_body = []\<rparr>"

definition get_missing :: request where
  "get_missing = \<lparr>path = ''/missing/'', request_method = ''GET'', request_headers = [], request_body = []\<rparr>"

definition start :: "unit dstate" where
  "start = \<lparr>world = (), trace = [], connections = []\<rparr>"

definition chat :: "unit klass" where
  "chat =
     \<lparr>klass_name = ''Chat'', is_GenericAPI = False, call_method = hello,
      is_GenericWebsocket = True, listen = (\<lambda>w conn. (Inr (), w))\<rparr>"

section \<open>Properties of \<^verbatim>\<open>collect_path_variables\<close>\<close>

lemma split_users_42: "split ''users/42'' ''/'' = [''users'', ''42'']"
  by (simp add: split_def startswith_def)

lemma split_users_id: "split ''users/<id>'' ''/'' = [''users'', ''<id>'']"
  by (simp add: split_def startswith_def)

lemma split_slash_users_42: "split ''/users/42'' ''/'' = ['''', ''users'', ''42'']"
  by (simp add: split_def startswith_def)

lemma strip_leading:
  assumes "\<not> startswith p ''/''"
  shows "strip_separators (''/'' @ p) = strip_separators p"
proof (cases p)
  case Nil
  then show ?thesis
    by (simp add: strip_separators_def removeprefix_def removesuffix_def
        startswith_def endswith_def)
next
  case (Cons c cs)
  with assms have c: "c \<noteq> CHR ''/''"
    by (simp add: startswith_def)
  show ?thesis
  proof (cases "endswith p ''/''")
    case True
    then have e: "endswith (''/'' @ p) ''/''"
      using Cons by (simp add: endswith_def)
    have "take (length p - 1) p = [] \<or> hd (take (length p - 1) p) = c"
      using Cons by (cases "length cs") auto
    then have "\<not> startswith (take (length p - 1) p) ''/''"
      using c by (cases "take (length p - 1) p") (auto simp: startswith_def)
    then show ?thesis
      using True e Cons
      by (simp add: strip_separators_def removeprefix_def removesuffix_def startswith_def)
  next
    case False
    then have e: "\<not> endswith (''/'' @ p) ''/''"
      using Cons by (simp add: endswith_def)
    show ?thesis
      using False e Cons c
      by (simp add: strip_separators_def removeprefix_def removesuffix_def startswith_def)
  qed
qed

lemma strip_trailing:
  assumes "\<not> endswith p ''/''"
  shows "strip_separators (p @ ''/'') = strip_separators p"
proof -
  have "removesuffix (p @ ''/'') ''/'' = p"
    by (simp add: removesuffix_def endswith_def)
  moreover have "removesuffix p ''/'' = p"
    using assms by (simp add: removesuffix_def)
  ultimately show ?thesis
    by (simp add: strip_separators_def)
qed

text \<open>
  C9, as stated: \<^verbatim>\<open>collect_path_variables("/users/42/", "/users/<id>/")\<close> is \<^verbatim>\<open>{"id": "42"}\<close>,
  and adding or removing one leading or trailing separator on either argument never changes
  the result. The second half fails: only one separator is removed at each end, so a
  separator added in front of \<^verbatim>\<open>/users/42/\<close> leaves an empty first segment and shifts every
  value by one place.
\<close>

theorem collect_path_variables_leading_separator_counterexample:
  "collect_path_variables ''/users/42/'' ''/users/<id>/'' ''id'' = Some ''42'' \<and>
   collect_path_variables (''/'' @ ''/users/42/'') ''/users/<id>/'' ''id'' = Some ''users'' \<and>
   collect_path_variables (''/'' @ ''/users/42/'') ''/users/<id>/'' \<noteq>
     collect_path_variables ''/users/42/'' ''/users/<id>/''"
proof -
  have a: "collect_path_variables ''/users/42/'' ''/users/<id>/'' ''id'' = Some ''42''"
    by (simp add: collect_path_variables_def strip_separators_def removeprefix_def
        removesuffix_def startswith_def endswith_def split_users_42 split_users_id
        slice_1_m1_def)
  have b: "collect_path_variables (''/'' @ ''/users/42/'') ''/users/<id>/'' ''id'' = Some ''users''"
    by (simp add: collect_path_variables_def strip_separators_def removeprefix_def
        removesuffix_def startswith_def endswith_def split_slash_users_42 split_users_id
        slice_1_m1_def)
  have c: "collect_path_variables (''/'' @ ''/users/42/'') ''/users/<id>/'' \<noteq>
     collect_path_variables ''/users/42/'' ''/users/<id>/''"
  proof
    assume "collect_path_variables (''/'' @ ''/users/42/'') ''/users/<id>/'' =
      collect_path_variables ''/users/42/'' ''/users/<id>/''"
    then have "collect_path_variables (''/'' @ ''/users/42/'') ''/users/<id>/'' ''id'' =
      collect_path_variables ''/users/42/'' ''/users/<id>/'' ''id''"
      by (rule arg_cong)
    then show False
      unfolding a b by simp
  qed
  from a b c show ?thesis by (intro conjI)
qed

text \<open>
  C9, amended: the example holds, and a separator added in front of an argument that does
  not begin with one, or behind an argument that does not end with one (so also: removing
  the only separator at an end), never changes the result.
\<close>

theorem collect_path_variables_separators:
  "collect_path_variables ''/users/42/'' ''/users/<id>/'' = [''id'' \<mapsto> ''42''] \<and>
   (\<not> startswith r ''/'' \<longrightarrow>
      collect_path_variables (''/'' @ r) f = collect_path_variables r f) \<and>
   (\<not> endswith r ''/'' \<longrightarrow>
      collect_path_variables (r @ ''/'') f = collect_path_variables r f) \<and>
   (\<not> startswith f ''/'' \<longrightarrow>
      collect_path_variables r (''/'' @ f) = collect_path_variables r f) \<and>
   (\<not> endswith f ''/'' \<longrightarrow>
      collect_path_variables r (f @ ''/'') = collect_path_variables r f)"
proof -
  have "collect_path_variables ''/users/42/'' ''/users/<id>/'' = [''id'' \<mapsto> ''42'']"
    by (simp add: collect_path_variables_def strip_separators_def removeprefix_def
        removesuffix_def startswith_def endswith_def split_users_42 split_users_id
        slice_1_m1_def)
  then show ?thesis
    by (simp add: collect_path_variables_def strip_leading strip_trailing
        del: append.simps)
qed

theorem collect_path_variables_separators_witness:
  "\<not> startswith ''users/42'' ''/'' \<and> \<not> endswith ''users/42'' ''/'' \<and>
   \<not> startswith ''users/<id>'' ''/'' \<and> \<not> endswith ''users/<id>'' ''/'' \<and>
   collect_path_variables (''/'' @ ''users/42'') ''users/<id>'' =
     collect_path_variables ''users/42'' ''users/<id>'' \<and>
   collect_path_variables (''users/42'' @ ''/'') ''users/<id>'' =
     collect_path_variables ''users/42'' ''users/<id>'' \<and>
   collect_path_variables ''users/42'' (''/'' @ ''users/<id>'') =
     collect_path_variables ''users/42'' ''users/<id>'' \<and>
   collect_path_variables ''users/42'' (''users/<id>'' @ ''/'') =
     collect_path_variables ''users/42'' ''users/<id>''"
proof -
  have h: "\<not> startswith ''users/42'' ''/'' \<and> \<not> endswith ''users/42'' ''/'' \<and>
      \<not> startswith ''users/<id>'' ''/'' \<and> \<not> endswith ''users/<id>'' ''/''"
    by (simp add: startswith_def endswith_def)
  with collect_path_variables_separators [of "''users/42''" "''users/<id>''"]
  show ?thesis by blast
qed


section \<open>Properties of the HTTP dispatch\<close>

lemma trace_emit [simp]: "trace (emit ev s) = trace s @ [ev]"
  by (simp add: emit_def)

lemma world_emit [simp]: "world (emit ev s) = world s"
  by (simp add: emit_def)

lemma connections_emit [simp]: "connections (emit ev s) = connections s"
  by (simp add: emit_def)

lemma before_calls_append [simp]: "before_calls (xs @ ys) = before_calls xs @ before_calls ys"
  by (induction xs rule: before_calls.induct) simp_all

lemma after_calls_append [simp]: "after_calls (xs @ ys) = after_calls xs @ after_calls ys"
  by (induction xs rule: after_calls.induct) simp_all

lemma endpoint_calls_append [simp]: "endpoint_calls (xs @ ys) = endpoint_calls xs @ endpoint_calls ys"
  by (induction xs rule: endpoint_calls.induct) simp_all

lemma sent_append [simp]: "sent (xs @ ys) = sent xs @ sent ys"
  by (induction xs rule: sent.induct) simp_all

lemma critical_logs_append [simp]: "critical_logs (xs @ ys) = critical_logs xs @ critical_logs ys"
  by (induction xs rule: critical_logs.induct) simp_all

lemma closes_append [simp]: "closes (xs @ ys) = closes xs @ closes ys"
  by (induction xs rule: closes.induct) simp_all

lemma call_with_exception_keywords:
  "call_http_response cfg [''status_code'', ''monitoring'', ''exception''] code mon b ex s =
     http_response cfg code mon b ex s"
  by (simp add: call_http_response_def http_response_parameters_def)

lemma call_with_headers_keyword:
  "call_http_response cfg [''status_code'', ''monitoring'', ''headers'', ''body''] code mon b ex s =
     (Inl (TypeError ''http_response() got an unexpected keyword argument headers''), s)"
  by (simp add: call_http_response_def http_response_parameters_def)

lemma http_response_exception:
  assumes "status_text cfg code = Some text"
  shows "http_response cfg code (Some m) b True s =
     (Inr (),
      s\<lparr>trace := trace s @
         [MonitoringAfter code,
          Send (HttpResponseStart code [(''content-type'', ''application/json'')]),
          Send (HttpResponseBody (Some (json_dumps cfg (JObj [(''detail'', JStr text)]))))]\<rparr>)"
  using assms
  by (simp add: http_response_def http_response_start_def http_response_body_def emit_def)

lemma run_before_returns:
  "run_before ms req s = (Inr req', s') \<Longrightarrow>
     trace s' = trace s @ map (\<lambda>m. Before (class_name m)) ms \<and> connections s' = connections s"
proof (induction ms arbitrary: req s)
  case Nil
  then show ?case by simp
next
  case (Cons m ms)
  obtain r w where h: "mw_before m (world s) req = (r, w)"
    by (cases "mw_before m (world s) req")
  show ?case
  proof (cases r)
    case (Inl e)
    with h Cons.prems show ?thesis by simp
  next
    case (Inr req1)
    with h Cons.prems have
      "run_before ms req1 ((emit (Before (class_name m)) s)\<lparr>world := w\<rparr>) = (Inr req', s')"
      by simp
    from Cons.IH [OF this] show ?thesis by simp
  qed
qed

lemma run_before_only_before:
  "run_before ms req s = (r, s') \<Longrightarrow>
     after_calls (trace s') = after_calls (trace s) \<and>
     endpoint_calls (trace s') = endpoint_calls (trace s) \<and>
     sent (trace s') = sent (trace s) \<and>
     critical_logs (trace s') = critical_logs (trace s)"
proof (induction ms arbitrary: req s)
  case Nil
  then show ?case by auto
next
  case (Cons m ms)
  obtain r1 w where h: "mw_before m (world s) req = (r1, w)"
    by (cases "mw_before m (world s) req")
  show ?case
  proof (cases r1)
    case (Inl e)
    with h Cons.prems show ?thesis by auto
  next
    case (Inr req1)
    with h Cons.prems have
      "run_before ms req1 ((emit (Before (class_name m)) s)\<lparr>world := w\<rparr>) = (r, s')"
      by simp
    from Cons.IH [OF this] show ?thesis by simp
  qed
qed

lemma try_body_raises:
  assumes "run_before (middlewares cfg) req s0 = (Inr req', s1)"
    and "capable ep"
    and "endpoint_callable ep (world s1) req' pv = (Inl e, w)"
  shows "try_body cfg ep pv req s0 =
    (Inl e, s1\<lparr>world := w, trace := trace s1 @ [EndpointCall (endpoint_name ep)]\<rparr>)"
  using assms by (cases ep) (simp_all add: try_body_def call_endpoint_def emit_def)

text \<open>
  The after-hook loop, when every hook keeps to the middleware contract: it ends with a
  response, and it adds to the trace one \<open>After\<close> event for each middleware, in the order of
  the list, the first one with the response the loop was given.
\<close>

lemma run_after_contract:
  assumes "\<forall>m \<in> set ms. after_raises_only_APIException m"
  shows "\<exists>resp' s' rs. run_after cfg ms resp s = (Inr resp', s') \<and>
     trace s' = trace s @ map (\<lambda>(m, r). After (class_name m) r) (zip ms (resp # rs)) \<and>
     length rs = length ms"
  using assms
proof (induction ms arbitrary: resp s)
  case Nil
  then show ?case by simp
next
  case (Cons m ms)
  obtain r w where h: "mw_after m (world s) resp = (r, w)"
    by (cases "mw_after m (world s) resp")
  from Cons.prems have m: "after_raises_only_APIException m"
    and ms: "\<forall>m \<in> set ms. after_raises_only_APIException m"
    by simp_all
  from m h have ok: "case r of Inl e \<Rightarrow> is_APIException e | Inr r' \<Rightarrow> True"
    unfolding after_raises_only_APIException_def by (metis fst_conv)
  define s1 where "s1 = (emit (After (class_name m) resp) s)\<lparr>world := w\<rparr>"
  have "\<exists>next_resp. run_after cfg (m # ms) resp s = run_after cfg ms next_resp s1"
  proof (cases r)
    case (Inl e)
    with ok obtain detail code where "e = APIException detail code"
      by (cases e) simp_all
    with Inl h show ?thesis by (auto simp: s1_def)
  next
    case (Inr r')
    with h show ?thesis by (auto simp: s1_def)
  qed
  then obtain next_resp where
    step: "run_after cfg (m # ms) resp s = run_after cfg ms next_resp s1" ..
  from Cons.IH [OF ms, of next_resp s1] obtain resp' s' rs where
    r: "run_after cfg ms next_resp s1 = (Inr resp', s')"
    and t: "trace s' = trace s1 @ map (\<lambda>(m, r). After (class_name m) r) (zip ms (next_resp # rs))"
    and l: "length rs = length ms"
    by blast
  have "trace s' = trace s @
      map (\<lambda>(m, r). After (class_name m) r) (zip (m # ms) (resp # next_resp # rs))"
    using t by (simp add: s1_def)
  with step r l show ?case
    by (intro exI [of _ resp'] exI [of _ s'] exI [of _ "next_resp # rs"]) simp
qed

text \<open>The after-hook loop sends no frame, however it ends.\<close>

lemma run_after_sends_nothing:
  "run_after cfg ms resp s = (r, s') \<Longrightarrow> sent (trace s') = sent (trace s)"
proof (induction ms arbitrary: resp s)
  case Nil
  then show ?case by simp
next
  case (Cons m ms)
  obtain r1 w where h: "mw_after m (world s) resp = (r1, w)"
    by (cases "mw_after m (world s) resp")
  show ?case
  proof (cases r1)
    case (Inr resp1)
    with h Cons.prems have
      "run_after cfg ms resp1 ((emit (After (class_name m) resp) s)\<lparr>world := w\<rparr>) = (r, s')"
      by simp
    from Cons.IH [OF this] show ?thesis by simp
  next
    case (Inl e)
    show ?thesis
    proof (cases "is_APIException e")
      case True
      then obtain detail code where e: "e = APIException detail code"
        by (cases e) simp_all
      with Inl h Cons.prems have
        "run_after cfg ms (handle_exceptions cfg detail code)
           ((emit (After (class_name m) resp) s)\<lparr>world := w\<rparr>) = (r, s')"
        by simp
      from Cons.IH [OF this] show ?thesis by simp
    next
      case False
      with Inl h Cons.prems have "s' = (emit (After (class_name m) resp) s)\<lparr>world := w\<rparr>"
        by (cases e) simp_all
      then show ?thesis by simp
    qed
  qed
qed

text \<open>
  The definitions of the example applications, for running the dispatch on them.
\<close>

lemmas example_defs =
  example_app_def load_configs_def get_hello_def get_missing_def start_def
  example_status_text_def example_Response_def passing_def rejecting_def broken_after_def broken_before_def
  hello_def failing_def cancelled_def ok_response_def chat_def

text \<open>
  C1, amended: five middlewares, the first two before-hooks return and the third raises an
  \<^verbatim>\<open>APIException\<close>. Provided that every after-hook returns a response or raises an
  \<^verbatim>\<open>APIException\<close>, exactly the first three before-hooks run, the endpoint is not called, the
  five after-hooks run in the reverse of the configured order, and the first of them is
  given the response that \<^verbatim>\<open>handle_exceptions\<close> maps the exception to. The configuration is
  the one \<^verbatim>\<open>load_configs\<close> builds, with \<^verbatim>\<open>reversed_middlewares\<close> the reversed list.
\<close>

theorem api_exception_in_third_before_hook:
  assumes "find_endpoint cfg (path req) = (Some ep, found_path)"
    and "mw_before m1 (world s) req = (Inr req1, w1)"
    and "mw_before m2 w1 req1 = (Inr req2, w2)"
    and "mw_before m3 w2 req2 = (Inl (APIException detail code), w3)"
    and "\<forall>m \<in> set [m1, m2, m3, m4, m5]. after_raises_only_APIException m"
  shows "before_calls (trace (snd (handle_http (load_configs cfg [m1, m2, m3, m4, m5]) req s))) =
       before_calls (trace s) @ [class_name m1, class_name m2, class_name m3] \<and>
     endpoint_calls (trace (snd (handle_http (load_configs cfg [m1, m2, m3, m4, m5]) req s))) =
       endpoint_calls (trace s) \<and>
     map fst (after_calls (trace (snd (handle_http (load_configs cfg [m1, m2, m3, m4, m5]) req s)))) =
       map fst (after_calls (trace s)) @
         [class_name m5, class_name m4, class_name m3, class_name m2, class_name m1] \<and>
     after_calls (trace (snd (handle_http (load_configs cfg [m1, m2, m3, m4, m5]) req s))) !
         length (after_calls (trace s)) =
       (class_name m5, handle_exceptions cfg detail code)"
proof -
  define cfg' where "cfg' = load_configs cfg [m1, m2, m3, m4, m5]"
  define s3 where "s3 = s\<lparr>world := w3,
    trace := trace s @ [MonitoringBefore, ReadBody,
      Before (class_name m1), Before (class_name m2), Before (class_name m3)]\<rparr>"
  define mapped where "mapped = handle_exceptions cfg detail code"
  have c: "middlewares cfg' = [m1, m2, m3, m4, m5]"
    "reversed_middlewares cfg' = [m5, m4, m3, m2, m1]"
    "find_endpoint cfg' = find_endpoint cfg"
    "handle_exceptions cfg' detail code = mapped"
    by (simp_all add: cfg'_def load_configs_def handle_exceptions_def mapped_def)
  have b: "run_before (middlewares cfg') req (emit ReadBody (emit MonitoringBefore s)) =
      (Inl (APIException detail code), s3)"
    using assms(2-4) by (simp add: c s3_def emit_def)
  have t: "try_body cfg' ep (collect_path_variables (path req) found_path) req
      (emit ReadBody (emit MonitoringBefore s)) = (Inl (APIException detail code), s3)"
    by (simp add: try_body_def b)
  have h: "handle_http cfg' req s = after_and_respond cfg' mapped s3"
    using assms(1) by (simp add: handle_http_def c t)
  have "\<forall>m \<in> set [m5, m4, m3, m2, m1]. after_raises_only_APIException m"
    using assms(5) by simp
  from run_after_contract [OF this, of cfg' mapped s3] obtain resp' s' rs where
    r: "run_after cfg' [m5, m4, m3, m2, m1] mapped s3 = (Inr resp', s')"
    and tr: "trace s' = trace s3 @
      map (\<lambda>(m, r). After (class_name m) r) (zip [m5, m4, m3, m2, m1] (mapped # rs))"
    and l: "length rs = 5"
    by auto
  from l obtain r1 r2 r3 r4 r5 where rs: "rs = [r1, r2, r3, r4, r5]"
    by (auto simp: length_Suc_conv eval_nat_numeral)
  have "after_and_respond cfg' mapped s3 =
      (Inl (TypeError ''http_response() got an unexpected keyword argument headers''), s')"
    unfolding after_and_respond_def c(2) r by (simp add: call_with_headers_keyword)
  then have "snd (handle_http cfg' req s) = s'"
    by (simp add: h)
  then show ?thesis
    unfolding cfg'_def [symmetric] mapped_def [symmetric]
    by (simp add: tr rs s3_def nth_append)
qed

text \<open>
  The theorem for C1 on five middlewares of which the third rejects the request.
\<close>

theorem api_exception_in_third_before_hook_witness:
  "trace (snd (handle_http
      (load_configs (example_app (FunctionEndpoint ''hello'' True hello) [])
         [passing ''m1'', passing ''m2'', rejecting ''m3'', passing ''m4'', passing ''m5''])
      get_hello start)) =
     [MonitoringBefore, ReadBody, Before ''m1'', Before ''m2'', Before ''m3'',
      After ''m5'' (example_Response (JObj [(''detail'', JStr ''denied'')]) 403),
      After ''m4'' (example_Response (JObj [(''detail'', JStr ''denied'')]) 403),
      After ''m3'' (example_Response (JObj [(''detail'', JStr ''denied'')]) 403),
      After ''m2'' (example_Response (JObj [(''detail'', JStr ''denied'')]) 403),
      After ''m1'' (example_Response (JObj [(''detail'', JStr ''denied'')]) 403)] \<and>
   map fst (after_calls (trace (snd (handle_http
      (load_configs (example_app (FunctionEndpoint ''hello'' True hello) [])
         [passing ''m1'', passing ''m2'', rejecting ''m3'', passing ''m4'', passing ''m5''])
      get_hello start)))) = [''m5'', ''m4'', ''m3'', ''m2'', ''m1'']"
  using api_exception_in_third_before_hook
    [of "example_app (FunctionEndpoint ''hello'' True hello) []" get_hello
        "FunctionEndpoint ''hello'' True hello" "''hello/''"
        "passing ''m1''" start get_hello "()" "passing ''m2''" get_hello "()"
        "rejecting ''m3''" "JStr ''denied''" 403 "()" "passing ''m4''" "passing ''m5''"]
  by (simp add: example_defs after_raises_only_APIException_def handle_http_def try_body_def
      after_and_respond_def call_with_headers_keyword handle_exceptions_def emit_def)

text \<open>
  C1, as stated for every dispatch: it fails when an after-hook raises an exception that is
  not an \<^verbatim>\<open>APIException\<close>. The loop of lines 244 to 248 catches \<^verbatim>\<open>APIException\<close> only, so the
  exception of the fifth middleware's after-hook, the first to run, leaves \<^verbatim>\<open>handle_http\<close>
  and the other four after-hooks never run.
\<close>

theorem after_hook_defect_counterexample:
  "mw_before (rejecting ''m3'') () get_hello = (Inl (APIException (JStr ''denied'') 403), ()) \<and>
   before_calls (trace (snd (handle_http
      (example_app (FunctionEndpoint ''hello'' True hello)
         [passing ''m1'', passing ''m2'', rejecting ''m3'', passing ''m4'', broken_after ''m5''])
      get_hello start))) = [''m1'', ''m2'', ''m3''] \<and>
   map fst (after_calls (trace (snd (handle_http
      (example_app (FunctionEndpoint ''hello'' True hello)
         [passing ''m1'', passing ''m2'', rejecting ''m3'', passing ''m4'', broken_after ''m5''])
      get_hello start)))) = [''m5'']"
  by (simp add: example_defs handle_http_def try_body_def
      after_and_respond_def handle_exceptions_def emit_def)

text \<open>
  C2, amended: when every before-hook has returned, the endpoint passes the capability check
  and its call raises an exception that is an instance of \<^verbatim>\<open>Exception\<close> and not an
  \<^verbatim>\<open>APIException\<close>, the dispatch returns after exactly these steps: the endpoint call, one
  critical log line holding \<^verbatim>\<open>clean_traceback_message\<close> of the exception, the monitoring call
  and the two frames of a 500 response whose body is \<^verbatim>\<open>{"detail": status_text[500]}\<close>. No
  after-hook runs, and the frames depend on nothing the handler or the exception provides.
\<close>

theorem unhandled_exception_skips_after_hooks:
  assumes "find_endpoint cfg (path req) = (Some ep, found_path)"
    and "run_before (middlewares cfg) req (emit ReadBody (emit MonitoringBefore s)) = (Inr req', s1)"
    and "capable ep"
    and "endpoint_callable ep (world s1) req' (collect_path_variables (path req) found_path) =
           (Inl e, w)"
    and "\<not> is_APIException e"
    and "is_Exception e"
    and "status_text cfg 500 = Some text"
  shows "handle_http cfg req s =
     (Inr (),
      s1\<lparr>world := w,
         trace := trace s1 @
           [EndpointCall (endpoint_name ep),
            LogCritical (clean_traceback_message cfg e),
            MonitoringAfter 500,
            Send (HttpResponseStart 500 [(''content-type'', ''application/json'')]),
            Send (HttpResponseBody (Some (json_dumps cfg (JObj [(''detail'', JStr text)]))))]\<rparr>) \<and>
     after_calls (trace (snd (handle_http cfg req s))) = after_calls (trace s) \<and>
     critical_logs (trace (snd (handle_http cfg req s))) =
       critical_logs (trace s) @ [clean_traceback_message cfg e] \<and>
     sent (trace (snd (handle_http cfg req s))) =
       sent (trace s) @
         [HttpResponseStart 500 [(''content-type'', ''application/json'')],
          HttpResponseBody (Some (json_dumps cfg (JObj [(''detail'', JStr text)])))]"
proof -
  note tb = try_body_raises [OF assms(2) assms(3) assms(4)]
  have "handle_http cfg req s =
      http_response cfg 500 (Some (Monitoring (monitoring cfg))) None True
        (emit (LogCritical (clean_traceback_message cfg e))
          (s1\<lparr>world := w, trace := trace s1 @ [EndpointCall (endpoint_name ep)]\<rparr>))"
    using assms(1) assms(5) assms(6)
    by (cases e) (simp_all add: handle_http_def tb call_with_exception_keywords)
  then have r: "handle_http cfg req s =
     (Inr (),
      s1\<lparr>world := w,
         trace := trace s1 @
           [EndpointCall (endpoint_name ep),
            LogCritical (clean_traceback_message cfg e),
            MonitoringAfter 500,
            Send (HttpResponseStart 500 [(''content-type'', ''application/json'')]),
            Send (HttpResponseBody (Some (json_dumps cfg (JObj [(''detail'', JStr text)]))))]\<rparr>)"
    by (simp add: http_response_exception [OF assms(7)] emit_def)
  from run_before_only_before [OF assms(2)] show ?thesis
    unfolding r by simp
qed

text \<open>
  The theorem for C2 on an application with two middlewares whose handler raises.
\<close>

theorem unhandled_exception_skips_after_hooks_witness:
  "handle_http (example_app (FunctionEndpoint ''hello'' True failing) [passing ''m1'', passing ''m2''])
      get_hello start =
     (Inr (),
      start\<lparr>trace :=
         [MonitoringBefore, ReadBody, Before ''m1'', Before ''m2'', EndpointCall ''hello'',
          LogCritical ''Traceback'', MonitoringAfter 500,
          Send (HttpResponseStart 500 [(''content-type'', ''application/json'')]),
          Send (HttpResponseBody (Some ''{detail: Internal Server Error}''))]\<rparr>)"
  using unhandled_exception_skips_after_hooks
    [of "example_app (FunctionEndpoint ''hello'' True failing) [passing ''m1'', passing ''m2'']"
        get_hello "FunctionEndpoint ''hello'' True failing" "''hello/''" start get_hello
        "start\<lparr>trace := [MonitoringBefore, ReadBody, Before ''m1'', Before ''m2'']\<rparr>"
        "OtherException ''secret''" "()" "''Internal Server Error''"]
  by (simp add: example_defs emit_def)


text \<open>
  C2, as stated for every exception that is not an \<^verbatim>\<open>APIException\<close>: it fails for one that is
  not an instance of \<^verbatim>\<open>Exception\<close> either. The handler below raises
  \<^verbatim>\<open>asyncio.CancelledError\<close>, which \<^verbatim>\<open>except Exception\<close> on line 231 does not catch: nothing is
  logged, no frame is sent and the exception leaves \<^verbatim>\<open>handle_http\<close>.
\<close>

theorem cancelled_handler_counterexample:
  "cancelled () get_hello (collect_path_variables (path get_hello) ''hello/'') =
     (Inl (BaseException ''CancelledError''), ()) \<and>
   \<not> is_APIException (BaseException ''CancelledError'') \<and>
   handle_http (example_app (FunctionEndpoint ''hello'' True cancelled) [passing ''m1''])
      get_hello start =
     (Inl (BaseException ''CancelledError''),
      start\<lparr>trace := [MonitoringBefore, ReadBody, Before ''m1'', EndpointCall ''hello'']\<rparr>) \<and>
   critical_logs (trace (snd (handle_http
      (example_app (FunctionEndpoint ''hello'' True cancelled) [passing ''m1''])
      get_hello start))) = [] \<and>
   sent (trace (snd (handle_http
      (example_app (FunctionEndpoint ''hello'' True cancelled) [passing ''m1''])
      get_hello start))) = []"
  by (simp add: example_defs handle_http_def try_body_def call_endpoint_def emit_def)

text \<open>
  C3, as stated for an exception raised at any point of the dispatch: it fails for an
  exception raised inside an after-hook. The handler returns a response, the after-hook of
  the only middleware raises, and the exception leaves \<^verbatim>\<open>handle_http\<close> with no frame sent.
  (Inside the \<^verbatim>\<open>try\<close> it fails as well for an exception that is not an instance of
  \<^verbatim>\<open>Exception\<close>: see the cancelled handler above.)
\<close>

theorem after_hook_exception_escapes:
  "handle_http (example_app (FunctionEndpoint ''hello'' True hello) [broken_after ''m1''])
      get_hello start =
     (Inl (OtherException ''boom''),
      start\<lparr>trace :=
         [MonitoringBefore, ReadBody, Before ''m1'', EndpointCall ''hello'',
          After ''m1'' ok_response]\<rparr>) \<and>
   sent (trace (snd (handle_http
      (example_app (FunctionEndpoint ''hello'' True hello) [broken_after ''m1''])
      get_hello start))) = []"
  by (simp add: example_defs handle_http_def try_body_def call_endpoint_def
      after_and_respond_def emit_def)

text \<open>
  C3, amended: an exception that is an instance of \<^verbatim>\<open>Exception\<close>, is not an \<^verbatim>\<open>APIException\<close>
  and is raised inside the \<^verbatim>\<open>try\<close> (by a before-hook, by framing the 501 response or by the
  endpoint call) is recovered: it is logged, a 500 response is framed and \<^verbatim>\<open>handle_http\<close>
  returns.
\<close>

theorem exception_inside_try_is_recovered:
  assumes "find_endpoint cfg (path req) = (Some ep, found_path)"
    and "try_body cfg ep (collect_path_variables (path req) found_path) req
           (emit ReadBody (emit MonitoringBefore s)) = (Inl e, s1)"
    and "\<not> is_APIException e"
    and "is_Exception e"
    and "status_text cfg 500 = Some text"
  shows "handle_http cfg req s =
     (Inr (),
      s1\<lparr>trace := trace s1 @
           [LogCritical (clean_traceback_message cfg e),
            MonitoringAfter 500,
            Send (HttpResponseStart 500 [(''content-type'', ''application/json'')]),
            Send (HttpResponseBody (Some (json_dumps cfg (JObj [(''detail'', JStr text)]))))]\<rparr>)"
proof -
  have "handle_http cfg req s =
      http_response cfg 500 (Some (Monitoring (monitoring cfg))) None True
        (emit (LogCritical (clean_traceback_message cfg e)) s1)"
    using assms(1-4)
    by (cases e) (simp_all add: handle_http_def call_with_exception_keywords)
  then show ?thesis
    by (simp add: http_response_exception [OF assms(5)] emit_def)
qed

text \<open>
  The theorem for C3 on an application whose only middleware raises in its before-hook.
\<close>

theorem exception_inside_try_is_recovered_witness:
  "handle_http (example_app (FunctionEndpoint ''hello'' True hello) [broken_before ''m1''])
      get_hello start =
     (Inr (),
      start\<lparr>trace :=
         [MonitoringBefore, ReadBody, Before ''m1'', LogCritical ''Traceback'',
          MonitoringAfter 500,
          Send (HttpResponseStart 500 [(''content-type'', ''application/json'')]),
          Send (HttpResponseBody (Some ''{detail: Internal Server Error}''))]\<rparr>)"
  using exception_inside_try_is_recovered
    [of "example_app (FunctionEndpoint ''hello'' True hello) [broken_before ''m1'']"
        get_hello "FunctionEndpoint ''hello'' True hello" "''hello/''" start
        "OtherException ''boom''"
        "start\<lparr>trace := [MonitoringBefore, ReadBody, Before ''m1'']\<rparr>"
        "''Internal Server Error''"]
  by (simp add: example_defs try_body_def emit_def)

text \<open>
  C4 on the code: the handler returns a response and there is no middleware. The call of
  lines 250 to 256 passes the keyword \<^verbatim>\<open>headers\<close>, which \<^verbatim>\<open>http_response\<close> does not declare:
  the call raises \<^verbatim>\<open>TypeError\<close>, which leaves \<^verbatim>\<open>handle_http\<close>, and no frame is sent.
\<close>

theorem final_response_is_not_framed:
  "handle_http (example_app (FunctionEndpoint ''hello'' True hello) []) get_hello start =
     (Inl (TypeError ''http_response() got an unexpected keyword argument headers''),
      start\<lparr>trace := [MonitoringBefore, ReadBody, EndpointCall ''hello'']\<rparr>) \<and>
   sent (trace (snd (handle_http
      (example_app (FunctionEndpoint ''hello'' True hello) []) get_hello start))) = []"
  by (simp add: example_defs handle_http_def try_body_def call_endpoint_def
      after_and_respond_def call_with_headers_keyword emit_def)

text \<open>
  What a framing call with \<^verbatim>\<open>exception=False\<close> sends, for every status and body: exactly one
  start frame with the status and the fixed \<^verbatim>\<open>content-type\<close> header, then exactly one body
  frame, which carries the body unless the status is 204 or the body is \<^verbatim>\<open>null\<close>.
\<close>

lemma http_response_frames:
  "fst (http_response cfg code mon b False s) = Inr () \<and>
   sent (trace (snd (http_response cfg code mon b False s))) =
     sent (trace s) @
       [HttpResponseStart code [(''content-type'', ''application/json'')],
        HttpResponseBody (if code = 204 \<or> b = Some ''null'' then None else b)]"
  by (cases mon; cases b)
    (auto simp: http_response_def http_response_start_def http_response_body_def)

text \<open>
  The call of lines 250 to 256 never reaches the body of \<^verbatim>\<open>http_response\<close>: whatever the
  after-hooks do, lines 243 to 256 end with an exception and send no frame.
\<close>

lemma after_and_respond_never_frames:
  "isl (fst (after_and_respond cfg resp s)) \<and>
   sent (trace (snd (after_and_respond cfg resp s))) = sent (trace s)"
proof -
  obtain r s1 where h: "run_after cfg (reversed_middlewares cfg) resp s = (r, s1)"
    by (cases "run_after cfg (reversed_middlewares cfg) resp s")
  from run_after_sends_nothing [OF h] h show ?thesis
    by (cases r) (simp_all add: after_and_respond_def call_with_headers_keyword)
qed

text \<open>
  C5: a framing call with \<^verbatim>\<open>exception=False\<close> whose status is 204, or whose body is empty
  (absent, the serialised \<^verbatim>\<open>null\<close>, or no bytes), sends a body frame that carries no bytes;
  for the status 204, an absent body and \<^verbatim>\<open>null\<close> the frame has no \<^verbatim>\<open>body\<close> key at all,
  whatever body was passed.
\<close>

theorem bodyless_frame:
  assumes "code = 204 \<or> b = None \<or> b = Some ''null'' \<or> b = Some []"
  shows "fst (http_response cfg code mon b False s) = Inr () \<and>
     sent (trace (snd (http_response cfg code mon b False s))) =
       sent (trace s) @
         [HttpResponseStart code [(''content-type'', ''application/json'')],
          HttpResponseBody (if code \<noteq> 204 \<and> b = Some [] then Some [] else None)] \<and>
     frame_payload (last (sent (trace (snd (http_response cfg code mon b False s))))) = []"
  using assms
  by (cases mon)
    (auto simp: http_response_def http_response_start_def http_response_body_def)

text \<open>
  The theorem for C5 on a framing call with the status 204 and a body that is not empty.
\<close>

theorem bodyless_frame_witness:
  "sent (trace (snd (http_response (example_app (FunctionEndpoint ''hello'' True hello) [])
      204 None (Some ''{}'') False start))) =
     [HttpResponseStart 204 [(''content-type'', ''application/json'')], HttpResponseBody None]"
  using bodyless_frame
    [of 204 "Some ''{}''" "example_app (FunctionEndpoint ''hello'' True hello) []" None start]
  by (simp add: start_def)

text \<open>
  C6: when the path matches no route, a 404 response is framed and no hook of any middleware
  runs: the dispatch returns, and all it adds to the trace is the two monitoring calls, the
  reading of the body and the two frames. (The table \<^verbatim>\<open>status_text\<close> is a parameter; it has to
  know the code 404.)
\<close>

theorem not_found_skips_middlewares:
  assumes "find_endpoint cfg (path req) = (None, found_path)"
    and "status_text cfg 404 = Some text"
  shows "handle_http cfg req s =
     (Inr (),
      s\<lparr>trace := trace s @
         [MonitoringBefore, ReadBody, MonitoringAfter 404,
          Send (HttpResponseStart 404 [(''content-type'', ''application/json'')]),
          Send (HttpResponseBody (Some (json_dumps cfg (JObj [(''detail'', JStr text)]))))]\<rparr>) \<and>
     before_calls (trace (snd (handle_http cfg req s))) = before_calls (trace s) \<and>
     after_calls (trace (snd (handle_http cfg req s))) = after_calls (trace s)"
proof -
  have "handle_http cfg req s =
      http_response cfg 404 (Some (Monitoring (monitoring cfg))) None True
        (emit ReadBody (emit MonitoringBefore s))"
    using assms(1) by (simp add: handle_http_def call_with_exception_keywords)
  then have "handle_http cfg req s =
     (Inr (),
      s\<lparr>trace := trace s @
         [MonitoringBefore, ReadBody, MonitoringAfter 404,
          Send (HttpResponseStart 404 [(''content-type'', ''application/json'')]),
          Send (HttpResponseBody (Some (json_dumps cfg (JObj [(''detail'', JStr text)]))))]\<rparr>)"
    by (simp add: http_response_exception [OF assms(2)] emit_def)
  then show ?thesis by simp
qed

text \<open>
  The theorem for C6 on the application with one middleware and a request for a path
  that it does not serve.
\<close>

theorem not_found_skips_middlewares_witness:
  "handle_http (example_app (FunctionEndpoint ''hello'' True hello) [passing ''m1'']) get_missing start =
     (Inr (),
      start\<lparr>trace :=
         [MonitoringBefore, ReadBody, MonitoringAfter 404,
          Send (HttpResponseStart 404 [(''content-type'', ''application/json'')]),
          Send (HttpResponseBody (Some ''{detail: Not Found}''))]\<rparr>)"
  using not_found_skips_middlewares
    [of "example_app (FunctionEndpoint ''hello'' True hello) [passing ''m1'']" get_missing
        "[]" "''Not Found''" start]
  by (simp add: example_defs)

text \<open>
  C7, amended: the capability check comes after the before-hooks inside the \<^verbatim>\<open>try\<close>, so it
  is reached only when every before-hook has returned. Then, for an endpoint that fails it
  (a function without \<^verbatim>\<open>__wrapped__\<close>, or a class that is not a subclass of \<^verbatim>\<open>GenericAPI\<close>),
  the dispatch logs one critical line that names the endpoint, frames a 501 response and
  returns; the endpoint is not called.
\<close>

theorem failed_capability_check:
  assumes "find_endpoint cfg (path req) = (Some ep, found_path)"
    and "run_before (middlewares cfg) req (emit ReadBody (emit MonitoringBefore s)) = (Inr req', s1)"
    and "\<not> capable ep"
    and "status_text cfg 501 = Some text"
  shows "handle_http cfg req s =
     (Inr (),
      s1\<lparr>trace := trace s1 @
           [LogCritical (forgotten_message ep),
            MonitoringAfter 501,
            Send (HttpResponseStart 501 [(''content-type'', ''application/json'')]),
            Send (HttpResponseBody (Some (json_dumps cfg (JObj [(''detail'', JStr text)]))))]\<rparr>) \<and>
     endpoint_calls (trace (snd (handle_http cfg req s))) = endpoint_calls (trace s) \<and>
     critical_logs (trace (snd (handle_http cfg req s))) =
       critical_logs (trace s) @ [forgotten_message ep] \<and>
     (\<exists>pre. forgotten_message ep = pre @ endpoint_name ep @ ''()'') \<and>
     sent (trace (snd (handle_http cfg req s))) =
       sent (trace s) @
         [HttpResponseStart 501 [(''content-type'', ''application/json'')],
          HttpResponseBody (Some (json_dumps cfg (JObj [(''detail'', JStr text)])))]"
proof -
  have "try_body cfg ep (collect_path_variables (path req) found_path) req
      (emit ReadBody (emit MonitoringBefore s)) =
     (Inr None,
      s1\<lparr>trace := trace s1 @
           [LogCritical (forgotten_message ep),
            MonitoringAfter 501,
            Send (HttpResponseStart 501 [(''content-type'', ''application/json'')]),
            Send (HttpResponseBody (Some (json_dumps cfg (JObj [(''detail'', JStr text)]))))]\<rparr>)"
    using assms(2) assms(3)
    by (cases ep)
      (simp_all add: try_body_def not_implemented_def call_with_exception_keywords
        http_response_exception [OF assms(4)] emit_def)
  then have r: "handle_http cfg req s =
     (Inr (),
      s1\<lparr>trace := trace s1 @
           [LogCritical (forgotten_message ep),
            MonitoringAfter 501,
            Send (HttpResponseStart 501 [(''content-type'', ''application/json'')]),
            Send (HttpResponseBody (Some (json_dumps cfg (JObj [(''detail'', JStr text)]))))]\<rparr>)"
    using assms(1) by (simp add: handle_http_def)
  have n: "\<exists>pre. forgotten_message ep = pre @ endpoint_name ep @ ''()''"
    by (cases ep) auto
  from run_before_only_before [OF assms(2)] n show ?thesis
    unfolding r by simp
qed

text \<open>
  The theorem for C7 on an application whose endpoint is a function without \<^verbatim>\<open>@API\<close>.
\<close>

theorem failed_capability_check_witness:
  "handle_http (example_app (FunctionEndpoint ''hello'' False hello) [passing ''m1''])
      get_hello start =
     (Inr (),
      start\<lparr>trace :=
         [MonitoringBefore, ReadBody, Before ''m1'',
          LogCritical ''You may have forgotten to use @API on the hello()'',
          MonitoringAfter 501,
          Send (HttpResponseStart 501 [(''content-type'', ''application/json'')]),
          Send (HttpResponseBody (Some ''{detail: Not Implemented}''))]\<rparr>)"
  using failed_capability_check
    [of "example_app (FunctionEndpoint ''hello'' False hello) [passing ''m1'']"
        get_hello "FunctionEndpoint ''hello'' False hello" "''hello/''" start get_hello
        "start\<lparr>trace := [MonitoringBefore, ReadBody, Before ''m1'']\<rparr>"
        "''Not Implemented''"]
  by (simp add: example_defs emit_def)

text \<open>
  C7, as stated, for every dispatch whose matched endpoint fails the check: it fails when
  a before-hook raises an \<^verbatim>\<open>APIException\<close>. The endpoint below is a function without
  \<^verbatim>\<open>__wrapped__\<close>, the only middleware rejects the request, and the dispatch neither frames
  a 501 response nor logs anything.
\<close>

theorem failed_capability_check_after_rejection_counterexample:
  "\<not> capable (FunctionEndpoint ''hello'' False hello) \<and>
   find_endpoint (example_app (FunctionEndpoint ''hello'' False hello) [rejecting ''auth''])
      (path get_hello) = (Some (FunctionEndpoint ''hello'' False hello), ''hello/'') \<and>
   sent (trace (snd (handle_http
      (example_app (FunctionEndpoint ''hello'' False hello) [rejecting ''auth''])
      get_hello start))) = [] \<and>
   critical_logs (trace (snd (handle_http
      (example_app (FunctionEndpoint ''hello'' False hello) [rejecting ''auth''])
      get_hello start))) = []"
  by (simp add: example_defs handle_http_def try_body_def after_and_respond_def
      call_with_headers_keyword handle_exceptions_def emit_def)

section \<open>Properties of the websocket dispatch\<close>

text \<open>
  C8 on the code: a websocket connection to a path whose endpoint is a function.
  \<^verbatim>\<open>issubclass\<close> raises \<^verbatim>\<open>TypeError\<close>, which leaves \<^verbatim>\<open>handle_ws\<close>; the connection is not closed.
\<close>

theorem websocket_to_function_endpoint:
  "handle_ws (example_app (FunctionEndpoint ''hello'' True hello) []) ''/hello/'' start =
     (Inl (TypeError ''issubclass() arg 1 must be a class''),
      start\<lparr>trace := [MonitoringBefore]\<rparr>) \<and>
   closes (trace (snd (handle_ws
      (example_app (FunctionEndpoint ''hello'' True hello) []) ''/hello/'' start))) = []"
  by (simp add: example_defs handle_ws_def emit_def)

text \<open>
  The two rejections of C8 that the code does perform: no route closes with code 1000, a
  class that is not a subclass of \<^verbatim>\<open>GenericWebsocket\<close> closes with code 1014, and neither
  touches the registry.
\<close>

lemma websocket_nonconforming_class:
  assumes "find_endpoint cfg p = (Some (ClassEndpoint k), found_path)"
    and "\<not> is_GenericWebsocket k"
  shows "fst (handle_ws cfg p s) = Inr () \<and>
    closes (trace (snd (handle_ws cfg p s))) = closes (trace s) @ [Some WS_1014_BAD_GATEWAY] \<and>
    connections (snd (handle_ws cfg p s)) = connections s"
  using assms by (simp add: handle_ws_def)

lemma websocket_no_route:
  assumes "find_endpoint cfg p = (None, found_path)"
  shows "fst (handle_ws cfg p s) = Inr () \<and>
    closes (trace (snd (handle_ws cfg p s))) = closes (trace s) @ [Some WS_1000_NORMAL_CLOSURE] \<and>
    connections (snd (handle_ws cfg p s)) = connections s"
  using assms by (simp add: handle_ws_def)

section \<open>Properties of the form-data decoder\<close>

text \<open>
  A successful match splits a prefix of the string into one text for each atom: the
  literal itself, or a text without a newline.
\<close>

lemma match_seq_sound:
  "(match_seq atoms s = Some texts \<longrightarrow>
      list_all2 fits atoms texts \<and> (\<exists>rest. s = concat texts @ rest))"
  "(shorter atoms s n = Some texts \<longrightarrow> n \<le> length (takeWhile (\<lambda>c. c \<noteq> CHR 0x0A) s) \<longrightarrow>
      (\<exists>t ts. texts = t # ts \<and> CHR 0x0A \<notin> set t \<and> list_all2 fits atoms ts \<and>
         (\<exists>rest. s = concat texts @ rest)))"
proof (induction atoms s and atoms s n arbitrary: texts and texts rule: match_seq_shorter.induct)
  case (1 s)
  then show ?case by simp
next
  case (2 l atoms s)
  show ?case
  proof
    assume a: "match_seq (Lit l # atoms) s = Some texts"
    then have sw: "startswith s l" by (simp split: if_splits)
    with a obtain ts where ts: "match_seq atoms (drop (length l) s) = Some ts" "texts = l # ts"
      by auto
    from 2 [OF sw] ts obtain rest where f: "list_all2 fits atoms ts"
      and c: "drop (length l) s = concat ts @ rest"
      by blast
    from sw have "s = l @ drop (length l) s"
      by (metis append_take_drop_id startswith_def)
    with c have "s = concat texts @ rest"
      by (simp add: ts)
    with f ts show "list_all2 fits (Lit l # atoms) texts \<and> (\<exists>rest. s = concat texts @ rest)"
      by auto
  qed
next
  case (3 atoms s)
  show ?case
  proof
    assume "match_seq (DotStar # atoms) s = Some texts"
    then have "shorter atoms s (length (takeWhile (\<lambda>c. c \<noteq> CHR 0x0A) s)) = Some texts"
      by simp
    with 3 obtain t ts where "texts = t # ts" "CHR 0x0A \<notin> set t" "list_all2 fits atoms ts"
      "\<exists>rest. s = concat texts @ rest"
      by blast
    then show "list_all2 fits (DotStar # atoms) texts \<and> (\<exists>rest. s = concat texts @ rest)"
      by simp
  qed
next
  case (4 atoms s)
  show ?case
  proof (intro impI)
    assume "shorter atoms s 0 = Some texts"
    then obtain ts where ts: "match_seq atoms s = Some ts" "texts = [] # ts"
      by auto
    with 4 have "list_all2 fits atoms ts" "\<exists>rest. s = concat ts @ rest"
      by blast+
    with ts show "\<exists>t ts. texts = t # ts \<and> CHR 0x0A \<notin> set t \<and> list_all2 fits atoms ts \<and>
         (\<exists>rest. s = concat texts @ rest)"
      by simp
  qed
next
  case (5 atoms s n)
  show ?case
  proof (intro impI)
    assume a: "shorter atoms s (Suc n) = Some texts"
      and b: "Suc n \<le> length (takeWhile (\<lambda>c. c \<noteq> CHR 0x0A) s)"
    show "\<exists>t ts. texts = t # ts \<and> CHR 0x0A \<notin> set t \<and> list_all2 fits atoms ts \<and>
         (\<exists>rest. s = concat texts @ rest)"
    proof (cases "match_seq atoms (drop (Suc n) s)")
      case None
      with a have "shorter atoms s n = Some texts" by simp
      with 5(2) [OF None] b show ?thesis by simp
    next
      case (Some ts)
      with a have t: "texts = take (Suc n) s # ts" by simp
      from 5(1) Some obtain rest where f: "list_all2 fits atoms ts"
        and c: "drop (Suc n) s = concat ts @ rest"
        by blast
      have "set (take (Suc n) s) \<subseteq> set (takeWhile (\<lambda>c. c \<noteq> CHR 0x0A) s)"
      proof -
        have "take (Suc n) s = take (Suc n) (takeWhile (\<lambda>c. c \<noteq> CHR 0x0A) s @ dropWhile (\<lambda>c. c \<noteq> CHR 0x0A) s)"
          by simp
        also have "\<dots> = take (Suc n) (takeWhile (\<lambda>c. c \<noteq> CHR 0x0A) s)"
          using b by (simp del: takeWhile_dropWhile_id)
        finally show ?thesis
          by (metis set_take_subset)
      qed
      then have nl: "CHR 0x0A \<notin> set (take (Suc n) s)"
        by (auto dest: set_takeWhileD)
      have "s = take (Suc n) s @ drop (Suc n) s"
        by simp
      with c have "s = concat texts @ rest"
        by (simp add: t)
      with t nl f show ?thesis by blast
    qed
  qed
qed

lemma until_newline:
  assumes "CHR 0x0A \<notin> set a"
  shows "takeWhile (\<lambda>c. c \<noteq> CHR 0x0A) (a @ CHR 0x0A # x) = a"
    and "dropWhile (\<lambda>c. c \<noteq> CHR 0x0A) (a @ CHR 0x0A # x) = CHR 0x0A # x"
proof -
  from assms have all: "\<forall>c \<in> set a. c \<noteq> CHR 0x0A" by auto
  then show "takeWhile (\<lambda>c. c \<noteq> CHR 0x0A) (a @ CHR 0x0A # x) = a"
    by (simp add: takeWhile_tail)
  from all show "dropWhile (\<lambda>c. c \<noteq> CHR 0x0A) (a @ CHR 0x0A # x) = CHR 0x0A # x"
    by (simp add: dropWhile_append3)
qed

text \<open>
  The shape of every part that the field pattern matches, and of every part that the file
  pattern matches.
\<close>

lemma field_shape:
  assumes "re_match field_pattern s = Some groups"
  shows "\<exists>t1 t2 t4 t6 rest. CHR 0x0A \<notin> set t1 \<and> CHR 0x0A \<notin> set t2 \<and>
     s = t1 @ crlf @ disposition @ t2 @ crlf @ crlf @ t4 @ crlf @ t6 @ rest \<and>
     groups = [t1 @ crlf @ disposition, t2, crlf @ crlf, t4, crlf @ t6]"
proof -
  from assms obtain texts where m: "match_seq (concat field_pattern) s = Some texts"
    and g: "groups = regroup (map length field_pattern) texts"
    by (auto simp: re_match_def)
  from match_seq_sound(1) [of "concat field_pattern" s texts] m
  obtain rest where f: "list_all2 fits (concat field_pattern) texts"
    and c: "s = concat texts @ rest"
    by blast
  from f obtain t1 t2 t4 t6 where
    t: "texts = [t1, crlf @ disposition, t2, crlf @ crlf, t4, crlf, t6]"
    and n: "CHR 0x0A \<notin> set t1" "CHR 0x0A \<notin> set t2"
    by (auto simp: field_pattern_def per_pattern_def value_pattern_def list_all2_Cons1
        disposition_def)
  from g t have "groups = [t1 @ crlf @ disposition, t2, crlf @ crlf, t4, crlf @ t6]"
    by (simp add: field_pattern_def per_pattern_def value_pattern_def)
  moreover from c t have "s = t1 @ crlf @ disposition @ t2 @ crlf @ crlf @ t4 @ crlf @ t6 @ rest"
    by simp
  ultimately show ?thesis using n by blast
qed

lemma file_shape:
  assumes "re_match file_pattern s = Some groups"
  shows "\<exists>u1 u2 u4 rest. CHR 0x0A \<notin> set u1 \<and> CHR 0x0A \<notin> set u2 \<and> CHR 0x0A \<notin> set u4 \<and>
     s = u1 @ crlf @ disposition @ u2 @ (quote @ ''; filename='' @ quote) @ u4
           @ (quote @ crlf @ ''Content-Type: '') @ rest"
proof -
  from assms obtain texts where m: "match_seq (concat file_pattern) s = Some texts"
    by (auto simp: re_match_def)
  from match_seq_sound(1) [of "concat file_pattern" s texts] m
  obtain rest where f: "list_all2 fits (concat file_pattern) texts"
    and c: "s = concat texts @ rest"
    by blast
  from f obtain u1 u2 u4 u6 u8 where
    t: "texts = [u1, crlf @ disposition, u2, quote @ ''; filename='' @ quote, u4,
          quote @ crlf @ ''Content-Type: '', u6, crlf @ crlf, u8]"
    and n: "CHR 0x0A \<notin> set u1" "CHR 0x0A \<notin> set u2" "CHR 0x0A \<notin> set u4"
    by (auto simp: file_pattern_def per_pattern_def value_pattern_def list_all2_Cons1
        disposition_def)
  from c t have "s = u1 @ crlf @ disposition @ u2 @ (quote @ ''; filename='' @ quote) @ u4
           @ (quote @ crlf @ ''Content-Type: '') @ (u6 @ crlf @ crlf @ u8 @ rest)"
    by simp
  with n show ?thesis by blast
qed

text \<open>
  The second half of C10 holds on the code: a part that the file pattern matches is never
  matched by the field pattern (after the first line break, the one needs an empty line
  and the other the \<^verbatim>\<open>Content-Type\<close> header), so it adds one log line and no entry.
\<close>

lemma file_part_is_no_field:
  assumes "re_match file_pattern s \<noteq> None"
  shows "re_match field_pattern s = None"
proof (rule ccontr)
  assume "re_match field_pattern s \<noteq> None"
  then obtain t1 t2 r1 where t: "CHR 0x0A \<notin> set t1" "CHR 0x0A \<notin> set t2"
    and s1: "s = t1 @ crlf @ disposition @ t2 @ crlf @ crlf @ r1"
    using field_shape by fastforce
  from assms obtain u1 u2 u4 r2 where u: "CHR 0x0A \<notin> set u1" "CHR 0x0A \<notin> set u2"
      "CHR 0x0A \<notin> set u4"
    and s2: "s = u1 @ crlf @ disposition @ u2 @ (quote @ ''; filename='' @ quote) @ u4
           @ (quote @ crlf @ ''Content-Type: '') @ r2"
    using file_shape by fastforce
  have a1: "s = (t1 @ [CHR 0x0D]) @ CHR 0x0A # (disposition @ t2 @ crlf @ crlf @ r1)"
    by (simp add: s1 crlf_def)
  have a2: "s = (u1 @ [CHR 0x0D]) @ CHR 0x0A #
      (disposition @ u2 @ (quote @ ''; filename='' @ quote) @ u4
           @ (quote @ crlf @ ''Content-Type: '') @ r2)"
    by (simp add: s2 crlf_def)
  have "takeWhile (\<lambda>c. c \<noteq> CHR 0x0A) s = t1 @ [CHR 0x0D]"
    by (subst a1, rule until_newline(1)) (simp add: t)
  moreover have "takeWhile (\<lambda>c. c \<noteq> CHR 0x0A) s = u1 @ [CHR 0x0D]"
    by (subst a2, rule until_newline(1)) (simp add: u)
  ultimately have "t1 = u1" by simp
  with s1 s2 have e: "t2 @ crlf @ crlf @ r1 =
      u2 @ (quote @ ''; filename='' @ quote) @ u4 @ (quote @ crlf @ ''Content-Type: '') @ r2"
    by simp
  define x where "x = t2 @ crlf @ crlf @ r1"
  have b1: "x = (t2 @ [CHR 0x0D]) @ CHR 0x0A # (crlf @ r1)"
    by (simp add: x_def crlf_def)
  have b2: "x = (u2 @ (quote @ ''; filename='' @ quote) @ u4 @ quote @ [CHR 0x0D]) @ CHR 0x0A #
      (''Content-Type: '' @ r2)"
    using e by (simp add: x_def crlf_def)
  have "dropWhile (\<lambda>c. c \<noteq> CHR 0x0A) x = CHR 0x0A # (crlf @ r1)"
    by (subst b1, rule until_newline(2)) (simp add: t)
  moreover have "dropWhile (\<lambda>c. c \<noteq> CHR 0x0A) x = CHR 0x0A # (''Content-Type: '' @ r2)"
    by (subst b2, rule until_newline(2)) (simp add: u quote_def)
  ultimately show False
    by (simp add: crlf_def)
qed

text \<open>
  The key that the field pattern captures for a part of the usual shape, a header
  \<^verbatim>\<open>name="..."\<close> followed by an empty line: the second group runs up to the empty line, so
  it is the name together with the closing quote.
\<close>

lemma captured_name_keeps_quote:
  assumes "re_match field_pattern (crlf @ disposition @ name @ quote @ crlf @ crlf @ tail) = Some groups"
    and "CHR 0x0A \<notin> set name"
  shows "groups ! 1 = name @ quote"
proof -
  define s where "s = crlf @ disposition @ name @ quote @ crlf @ crlf @ tail"
  from assms(1) obtain t1 t2 t4 t6 rest where t: "CHR 0x0A \<notin> set t1" "CHR 0x0A \<notin> set t2"
    and s1: "s = t1 @ crlf @ disposition @ t2 @ crlf @ crlf @ t4 @ crlf @ t6 @ rest"
    and g: "groups = [t1 @ crlf @ disposition, t2, crlf @ crlf, t4, crlf @ t6]"
    unfolding s_def using field_shape by blast
  have a1: "s = (t1 @ [CHR 0x0D]) @ CHR 0x0A #
      (disposition @ t2 @ crlf @ crlf @ t4 @ crlf @ t6 @ rest)"
    by (simp add: s1 crlf_def)
  have a2: "s = [CHR 0x0D] @ CHR 0x0A # (disposition @ name @ quote @ crlf @ crlf @ tail)"
    by (simp add: s_def crlf_def)
  have "takeWhile (\<lambda>c. c \<noteq> CHR 0x0A) s = t1 @ [CHR 0x0D]"
    by (subst a1, rule until_newline(1)) (simp add: t)
  moreover have "takeWhile (\<lambda>c. c \<noteq> CHR 0x0A) s = [CHR 0x0D]"
    by (subst a2, rule until_newline(1)) simp
  ultimately have "t1 = []" by simp
  with s1 have e: "t2 @ crlf @ crlf @ t4 @ crlf @ t6 @ rest = name @ quote @ crlf @ crlf @ tail"
    by (simp add: s_def)
  define x where "x = t2 @ crlf @ crlf @ t4 @ crlf @ t6 @ rest"
  have b1: "x = (t2 @ [CHR 0x0D]) @ CHR 0x0A # (crlf @ t4 @ crlf @ t6 @ rest)"
    by (simp add: x_def crlf_def)
  have b2: "x = (name @ quote @ [CHR 0x0D]) @ CHR 0x0A # (crlf @ tail)"
    using e by (simp add: x_def crlf_def)
  have "takeWhile (\<lambda>c. c \<noteq> CHR 0x0A) x = t2 @ [CHR 0x0D]"
    by (subst b1, rule until_newline(1)) (simp add: t)
  moreover have "takeWhile (\<lambda>c. c \<noteq> CHR 0x0A) x = name @ quote @ [CHR 0x0D]"
    by (subst b2, rule until_newline(1)) (simp add: assms(2) quote_def)
  ultimately have "t2 = name @ quote" by simp
  with g show ?thesis by simp
qed

lemma decode_file_part:
  assumes "re_match file_pattern part \<noteq> None"
  shows "decode_part part (fs, errors) = (fs, errors @ [file_message])"
  using assms file_part_is_no_field [OF assms]
  by (auto simp: decode_part_def file_message_def)

lemma decode_other_part:
  assumes "re_match file_pattern part = None"
  shows "snd (decode_part part (fs, errors)) = errors"
  using assms by (simp add: decode_part_def)

lemma decode_part_fields:
  "fst (decode_part part (fs, errors)) = fst (decode_part part (fs, []))"
  by (simp add: decode_part_def)

lemma fold_decode_part_fields:
  "fst (fold decode_part parts (fs, errors)) = fst (fold decode_part parts (fs, []))"
proof (induction parts arbitrary: fs errors)
  case Nil
  then show ?case by simp
next
  case (Cons p parts)
  obtain fs' e1 where d1: "decode_part p (fs, errors) = (fs', e1)"
    by (cases "decode_part p (fs, errors)")
  obtain fs'' e2 where d2: "decode_part p (fs, []) = (fs'', e2)"
    by (cases "decode_part p (fs, [])")
  from decode_part_fields [of p fs errors] d1 d2 have "fs'' = fs'" by simp
  with d1 d2 Cons.IH [of fs' e1] Cons.IH [of fs' e2] show ?case by simp
qed

lemma fold_decode_part_errors:
  "snd (fold decode_part parts (fs, errors)) =
     errors @ replicate (length (filter (\<lambda>p. re_match file_pattern p \<noteq> None) parts)) file_message"
proof (induction parts arbitrary: fs errors)
  case Nil
  then show ?case by simp
next
  case (Cons p parts)
  show ?case
  proof (cases "re_match file_pattern p = None")
    case True
    obtain fs' where d: "decode_part p (fs, errors) = (fs', errors)"
      using decode_other_part [OF True, of fs errors]
      by (cases "decode_part p (fs, errors)") simp
    from Cons.IH [of fs' errors] True d show ?thesis by simp
  next
    case False
    have "snd (fold decode_part (p # parts) (fs, errors)) =
        snd (fold decode_part parts (fs, errors @ [file_message]))"
      by (simp add: decode_file_part [OF False])
    also have "\<dots> = (errors @ [file_message]) @
        replicate (length (filter (\<lambda>p. re_match file_pattern p \<noteq> None) parts)) file_message"
      by (rule Cons.IH)
    finally show ?thesis
      using False by simp
  qed
qed

lemma fold_decode_part_dropped:
  "fst (fold decode_part parts (fs, errors)) =
     fst (fold decode_part (filter (\<lambda>p. re_match file_pattern p = None) parts) (fs, errors))"
proof (induction parts arbitrary: fs errors)
  case Nil
  then show ?case by simp
next
  case (Cons p parts)
  show ?case
  proof (cases "re_match file_pattern p = None")
    case True
    obtain fs' e' where d: "decode_part p (fs, errors) = (fs', e')"
      by (cases "decode_part p (fs, errors)")
    from Cons.IH [of fs' e'] True d show ?thesis by simp
  next
    case False
    have "fst (fold decode_part (p # parts) (fs, errors)) =
        fst (fold decode_part parts (fs, errors @ [file_message]))"
      by (simp add: decode_file_part [OF False])
    also have "\<dots> = fst (fold decode_part parts (fs, errors))"
      by (simp add: fold_decode_part_fields [of parts fs "errors @ [file_message]"]
          fold_decode_part_fields [of parts fs errors])
    also have "\<dots> =
        fst (fold decode_part (filter (\<lambda>p. re_match file_pattern p = None) parts) (fs, errors))"
      by (rule Cons.IH)
    finally have "fst (fold decode_part (p # parts) (fs, errors)) =
        fst (fold decode_part (filter (\<lambda>p. re_match file_pattern p = None) parts) (fs, errors))" .
    moreover have "filter (\<lambda>p. re_match file_pattern p = None) (p # parts) =
        filter (\<lambda>p. re_match file_pattern p = None) parts"
      using False by simp
    ultimately show ?thesis
      by (simp only:)
  qed
qed

text \<open>
  The returned dictionary is the one computed from the parts that are not file-bearing, and
  one line is logged for each file-bearing part.
\<close>

lemma file_parts_logged_and_dropped:
  assumes "read_multipart_form_data content_type body_text = Inr (fs, errors)"
  shows "fs = fst (fold decode_part
           (filter (\<lambda>p. re_match file_pattern p = None) (split body_text (drop 30 content_type)))
           (Map.empty, [])) \<and>
     errors = replicate
       (length (filter (\<lambda>p. re_match file_pattern p \<noteq> None)
          (split body_text (drop 30 content_type)))) file_message"
proof -
  from assms have "fold decode_part (split body_text (drop 30 content_type)) (Map.empty, []) =
      (fs, errors)"
    by (simp add: read_multipart_form_data_def split: if_splits)
  with fold_decode_part_dropped [of "split body_text (drop 30 content_type)" Map.empty "[]"]
    fold_decode_part_errors [of "split body_text (drop 30 content_type)" Map.empty "[]"]
  show ?thesis by simp
qed

text \<open>
  C10 on the code: the first half of the claim, a mapping from simple field names to their
  values, fails on a body with the one field \<^verbatim>\<open>title\<close>. The key of the returned dictionary is
  \<^verbatim>\<open>title"\<close>, the name with the closing double quote, where the comment on the pattern
  says that the group is the field name.
\<close>

theorem form_data_key_keeps_quote:
  "read_multipart_form_data ''multipart/form-data; boundary=XYZ'' form_body =
     Inr ([''title'' @ quote \<mapsto> ''hello''], [])"
proof -
  have s: "split form_body ''XYZ'' = [''--'', title_part, CHR ''-'' # CHR ''-'' # crlf]"
    by (simp add: form_body_def split_def title_part_def crlf_def quote_def startswith_def)
  have m1: "re_match field_pattern title_part =
      Some [crlf @ disposition, ''title'' @ quote, crlf @ crlf, ''hello'', crlf @ ''--'']"
    by (simp add: re_match_def field_pattern_def per_pattern_def value_pattern_def
        title_part_def crlf_def quote_def startswith_def disposition_def)
  have m2: "re_match file_pattern title_part = None"
    by (simp add: re_match_def file_pattern_def per_pattern_def value_pattern_def
        title_part_def crlf_def quote_def startswith_def)
  have m3: "re_match field_pattern ''--'' = None" "re_match file_pattern ''--'' = None"
    "re_match field_pattern (CHR ''-'' # CHR ''-'' # crlf) = None"
    "re_match file_pattern (CHR ''-'' # CHR ''-'' # crlf) = None"
    by (simp_all add: re_match_def field_pattern_def file_pattern_def per_pattern_def
        value_pattern_def crlf_def quote_def startswith_def)
  show ?thesis
    by (simp add: read_multipart_form_data_def s decode_part_def m1 m2 m3)
qed


text \<open>
  The example file part, with its \<^verbatim>\<open>filename\<close> and \<^verbatim>\<open>Content-Type\<close>, is logged and adds no entry.
\<close>

lemma file_part_example:
  "decode_part file_part (fs, errors) = (fs, errors @ [file_message])"
proof -
  have "re_match file_pattern file_part \<noteq> None"
    by (simp add: re_match_def file_pattern_def per_pattern_def value_pattern_def
        file_part_def crlf_def quote_def startswith_def)
  then show ?thesis
    by (rule decode_file_part)
qed

end
